theory Spec2Isabelle
  imports Complex_Main
begin

section \<open>Floating-point cells, series and dataframes\<close>

text \<open>
  A pandas cell of dtype float64 is modelled as an extended real with a distinguished
  \<open>NaN\<close> (the missing value). Rounding, overflow and the sign of zero are not modelled:
  a finite cell carries a real number.
\<close>

datatype cell = NaN | NegInf | Num real | PosInf

text \<open>
  IEEE comparison as numpy and pandas apply it elementwise: every comparison with a
  \<open>NaN\<close> operand is false.
\<close>

fun cell_lt :: "cell \<Rightarrow> cell \<Rightarrow> bool" where
  "cell_lt NaN b = False"
| "cell_lt a NaN = False"
| "cell_lt PosInf b = False"
| "cell_lt a NegInf = False"
| "cell_lt NegInf b = True"
| "cell_lt a PosInf = True"
| "cell_lt (Num x) (Num y) = (x < y)"

definition cell_le :: "cell \<Rightarrow> cell \<Rightarrow> bool" where
  "cell_le a b = (a \<noteq> NaN \<and> b \<noteq> NaN \<and> (a = b \<or> cell_lt a b))"

definition cell_gt :: "cell \<Rightarrow> cell \<Rightarrow> bool" where
  "cell_gt a b = cell_lt b a"

definition cell_ge :: "cell \<Rightarrow> cell \<Rightarrow> bool" where
  "cell_ge a b = cell_le b a"

text \<open>Float arithmetic: any operation on \<open>NaN\<close> is \<open>NaN\<close>.\<close>

fun cell_add :: "cell \<Rightarrow> cell \<Rightarrow> cell" where
  "cell_add NaN b = NaN"
| "cell_add a NaN = NaN"
| "cell_add PosInf NegInf = NaN"
| "cell_add NegInf PosInf = NaN"
| "cell_add PosInf b = PosInf"
| "cell_add a PosInf = PosInf"
| "cell_add NegInf b = NegInf"
| "cell_add a NegInf = NegInf"
| "cell_add (Num x) (Num y) = Num (x + y)"

definition signed_inf :: "bool \<Rightarrow> cell" where
  "signed_inf positive = (if positive then PosInf else NegInf)"

fun cell_mul :: "cell \<Rightarrow> cell \<Rightarrow> cell" where
  "cell_mul NaN b = NaN"
| "cell_mul a NaN = NaN"
| "cell_mul (Num x) (Num y) = Num (x * y)"
| "cell_mul (Num x) b = (if x = 0 then NaN else signed_inf ((0 < x) = (b = PosInf)))"
| "cell_mul a (Num y) = (if y = 0 then NaN else signed_inf ((0 < y) = (a = PosInf)))"
| "cell_mul a b = signed_inf (a = b)"

text \<open>
  Division never raises on float64 data: a zero divisor gives an infinity, or \<open>NaN\<close>
  for \<open>0 / 0\<close>. (A zero divisor is read as \<open>+0.0\<close>.)
\<close>

fun cell_div :: "cell \<Rightarrow> cell \<Rightarrow> cell" where
  "cell_div NaN b = NaN"
| "cell_div a NaN = NaN"
| "cell_div (Num x) (Num y) =
     (if y = 0 then (if x = 0 then NaN else signed_inf (0 < x)) else Num (x / y))"
| "cell_div (Num x) b = Num 0"
| "cell_div a (Num y) = signed_inf ((0 \<le> y) = (a = PosInf))"
| "cell_div a b = NaN"

type_synonym series = "nat \<Rightarrow> cell"

type_synonym mask = "nat \<Rightarrow> bool"

text \<open>
  A dataframe has a number of rows (its index is \<open>0 ..< nrows\<close>) and named columns;
  a column is read by row position. Rows at or beyond \<open>nrows\<close> carry no meaning.
\<close>

record frame =
  nrows :: nat
  cols :: "string \<rightharpoonup> series"

datatype error = KeyError string

definition bindE :: "error + 'a \<Rightarrow> ('a \<Rightarrow> error + 'b) \<Rightarrow> error + 'b" where
  "bindE m f = (case m of Inl e \<Rightarrow> Inl e | Inr x \<Rightarrow> f x)"

text \<open>\<^verbatim>\<open>table[name]\<close>: a missing key raises \<open>KeyError\<close>.\<close>

definition lookup :: "(string \<rightharpoonup> series) \<Rightarrow> string \<Rightarrow> error + series" where
  "lookup table name = (case table name of None \<Rightarrow> Inl (KeyError name) | Some s \<Rightarrow> Inr s)"

definition col :: "frame \<Rightarrow> string \<Rightarrow> error + series" where
  "col dataframe name = lookup (cols dataframe) name"

text \<open>\<^verbatim>\<open>dataframe[name] = s\<close>: adds the column, or replaces it.\<close>

definition set_col :: "string \<Rightarrow> series \<Rightarrow> frame \<Rightarrow> frame" where
  "set_col name s dataframe = dataframe\<lparr>cols := (cols dataframe)(name \<mapsto> s)\<rparr>"

text \<open>The value a column holds at a row; a column that does not exist holds nothing.\<close>

definition cell_at :: "frame \<Rightarrow> string \<Rightarrow> nat \<Rightarrow> cell" where
  "cell_at dataframe name i = (case cols dataframe name of None \<Rightarrow> NaN | Some s \<Rightarrow> s i)"

text \<open>
  \<^verbatim>\<open>dataframe.loc[mask, name] = v\<close>: the rows selected by the mask receive \<open>v\<close>; every
  other row keeps its value, and is missing (\<open>NaN\<close>) when the column is created by this
  very assignment.
\<close>

definition loc_set :: "mask \<Rightarrow> string \<Rightarrow> cell \<Rightarrow> frame \<Rightarrow> frame" where
  "loc_set m name v dataframe =
     set_col name (\<lambda>i. if m i then v else cell_at dataframe name i) dataframe"

text \<open>A signal flag is set at a row when the flag column holds 1 there.\<close>

definition flag_set :: "frame \<Rightarrow> string \<Rightarrow> nat \<Rightarrow> bool" where
  "flag_set dataframe name i = (cell_at dataframe name i = Num 1)"

text \<open>\<^verbatim>\<open>s.shift(k)\<close>: row \<open>i\<close> holds what row \<open>i - k\<close> held; the first \<open>k\<close> rows are missing.\<close>

definition shift :: "nat \<Rightarrow> series \<Rightarrow> series" where
  "shift k s = (\<lambda>i. if i < k then NaN else s (i - k))"

text \<open>Elementwise comparison of two series, and of a series with a scalar.\<close>

definition series_lt :: "series \<Rightarrow> series \<Rightarrow> mask" where
  "series_lt s t = (\<lambda>i. cell_lt (s i) (t i))"

definition series_le :: "series \<Rightarrow> series \<Rightarrow> mask" where
  "series_le s t = (\<lambda>i. cell_le (s i) (t i))"

definition series_gt :: "series \<Rightarrow> series \<Rightarrow> mask" where
  "series_gt s t = (\<lambda>i. cell_gt (s i) (t i))"

definition series_ge :: "series \<Rightarrow> series \<Rightarrow> mask" where
  "series_ge s t = (\<lambda>i. cell_ge (s i) (t i))"

definition scalar :: "real \<Rightarrow> series" where
  "scalar x = (\<lambda>i. Num x)"

definition series_div :: "series \<Rightarrow> series \<Rightarrow> series" where
  "series_div s t = (\<lambda>i. cell_div (s i) (t i))"

definition series_mul :: "series \<Rightarrow> series \<Rightarrow> series" where
  "series_mul s t = (\<lambda>i. cell_mul (s i) (t i))"

text \<open>The mask operators \<^verbatim>\<open>&\<close> and \<^verbatim>\<open>|\<close>.\<close>

definition mask_and :: "mask \<Rightarrow> mask \<Rightarrow> mask" where
  "mask_and a b = (\<lambda>i. a i \<and> b i)"

definition mask_or :: "mask \<Rightarrow> mask \<Rightarrow> mask" where
  "mask_or a b = (\<lambda>i. a i \<or> b i)"

text \<open>A series given by its rows, for concrete inputs.\<close>

definition series_of :: "cell list \<Rightarrow> series" where
  "series_of xs = (\<lambda>i. if i < length xs then xs ! i else NaN)"

section \<open>Strategy classes\<close>

text \<open>The class attributes the modelled methods read.\<close>

record strategy =
  stoploss :: real
  startup_candle_count :: nat
  grid_spacing_percent :: real

definition GridStrategy :: strategy where
  "GridStrategy = \<lparr>stoploss = - 0.05, startup_candle_count = 30, grid_spacing_percent = 2.0\<rparr>"

definition GridStrategyV2 :: strategy where
  "GridStrategyV2 = \<lparr>stoploss = - 0.06, startup_candle_count = 30, grid_spacing_percent = 2.0\<rparr>"

subsection \<open>The stop-loss hook\<close>

text \<open>
  \<^verbatim>\<open>GridStrategy.custom_stoploss\<close>. The profit is a float, so it may be \<open>NaN\<close>, for which
  the comparison is false.
\<close>

definition GridStrategy_custom_stoploss ::
  "strategy \<Rightarrow> string \<Rightarrow> 'trade \<Rightarrow> 'time \<Rightarrow> cell \<Rightarrow> cell \<Rightarrow> real" where
  "GridStrategy_custom_stoploss self pair trade current_time current_rate current_profit =
     (if cell_gt current_profit (Num 0.01) then - 0.02 else stoploss self)"

text \<open>
  \<^verbatim>\<open>GridStrategyV2\<close> declares no \<^verbatim>\<open>custom_stoploss\<close>: the attribute resolves to the method
  of the base class \<^verbatim>\<open>IStrategy\<close>, which belongs to the host framework and not to the
  repository. The inherited method is a parameter of the model.
\<close>

definition GridStrategyV2_custom_stoploss ::
  "(strategy \<Rightarrow> string \<Rightarrow> 'trade \<Rightarrow> 'time \<Rightarrow> cell \<Rightarrow> cell \<Rightarrow> real) \<Rightarrow>
   strategy \<Rightarrow> string \<Rightarrow> 'trade \<Rightarrow> 'time \<Rightarrow> cell \<Rightarrow> cell \<Rightarrow> real" where
  "GridStrategyV2_custom_stoploss inherited self pair trade current_time current_rate
     current_profit =
     inherited self pair trade current_time current_rate current_profit"

text \<open>
  The base-class hook as the host framework documents it: it returns the configured
  stop-loss. It instantiates the parameter above in concrete evaluations.
\<close>

definition IStrategy_custom_stoploss ::
  "strategy \<Rightarrow> string \<Rightarrow> 'trade \<Rightarrow> 'time \<Rightarrow> cell \<Rightarrow> cell \<Rightarrow> real" where
  "IStrategy_custom_stoploss self pair trade current_time current_rate current_profit =
     stoploss self"

subsection \<open>Entry and exit signals of the Grid strategies\<close>

text \<open>\<^verbatim>\<open>GridStrategy.populate_entry_trend\<close>.\<close>

definition GridStrategy_populate_entry_trend :: "frame \<Rightarrow> 'meta \<Rightarrow> error + frame" where
  "GridStrategy_populate_entry_trend dataframe metadata =
     bindE (col dataframe ''close'') (\<lambda>close.
     bindE (col dataframe ''bb_lowerband'') (\<lambda>bb_lowerband.
     bindE (col dataframe ''rsi'') (\<lambda>rsi.
     bindE (col dataframe ''sma_20'') (\<lambda>sma_20.
     bindE (col dataframe ''volume'') (\<lambda>volume.
     bindE (col dataframe ''volume_sma'') (\<lambda>volume_sma.
       Inr (loc_set
         (mask_and
           (mask_and
             (mask_or
               (mask_or (series_le close bb_lowerband) (series_lt rsi (scalar 40)))
               (mask_and (series_lt close sma_20) (series_gt volume volume_sma)))
             (series_gt volume (scalar 0)))
           (series_gt close (scalar 0)))
         ''enter_long'' (Num 1) dataframe)))))))"

text \<open>\<^verbatim>\<open>GridStrategy.populate_exit_trend\<close>.\<close>

definition GridStrategy_populate_exit_trend :: "frame \<Rightarrow> 'meta \<Rightarrow> error + frame" where
  "GridStrategy_populate_exit_trend dataframe metadata =
     bindE (col dataframe ''close'') (\<lambda>close.
     bindE (col dataframe ''bb_upperband'') (\<lambda>bb_upperband.
     bindE (col dataframe ''rsi'') (\<lambda>rsi.
     bindE (col dataframe ''sma_20'') (\<lambda>sma_20.
     bindE (col dataframe ''volume'') (\<lambda>volume.
     bindE (col dataframe ''volume_sma'') (\<lambda>volume_sma.
       Inr (loc_set
         (mask_and
           (mask_or
             (mask_or (series_ge close bb_upperband) (series_gt rsi (scalar 60)))
             (mask_and (series_gt close sma_20) (series_gt volume volume_sma)))
           (series_gt volume (scalar 0)))
         ''exit_long'' (Num 1) dataframe)))))))"

text \<open>\<^verbatim>\<open>GridStrategyV2.populate_entry_trend\<close>.\<close>

definition GridStrategyV2_populate_entry_trend :: "frame \<Rightarrow> 'meta \<Rightarrow> error + frame" where
  "GridStrategyV2_populate_entry_trend dataframe metadata =
     bindE (col dataframe ''close'') (\<lambda>close.
     bindE (col dataframe ''bb_lowerband'') (\<lambda>bb_lowerband.
     bindE (col dataframe ''rsi'') (\<lambda>rsi.
     bindE (col dataframe ''volume'') (\<lambda>volume.
       Inr (loc_set
         (mask_and
           (mask_or (series_le close bb_lowerband) (series_lt rsi (scalar 30)))
           (series_gt volume (scalar 0)))
         ''enter_long'' (Num 1) dataframe)))))"

text \<open>\<^verbatim>\<open>GridStrategyV2.populate_exit_trend\<close>.\<close>

definition GridStrategyV2_populate_exit_trend :: "frame \<Rightarrow> 'meta \<Rightarrow> error + frame" where
  "GridStrategyV2_populate_exit_trend dataframe metadata =
     bindE (col dataframe ''close'') (\<lambda>close.
     bindE (col dataframe ''bb_upperband'') (\<lambda>bb_upperband.
     bindE (col dataframe ''rsi'') (\<lambda>rsi.
     bindE (col dataframe ''volume'') (\<lambda>volume.
       Inr (loc_set
         (mask_and
           (mask_and (series_ge close bb_upperband) (series_gt rsi (scalar 70)))
           (series_gt volume (scalar 0)))
         ''exit_long'' (Num 1) dataframe)))))"


section \<open>The indicator stage\<close>

text \<open>
  Assignments to the dataframe run in sequence, each reading the dataframe the earlier
  ones left; a read of a missing column raises and ends the run.
\<close>

definition mapE :: "('a \<Rightarrow> 'b) \<Rightarrow> error + 'a \<Rightarrow> error + 'b" where
  "mapE f m = bindE m (\<lambda>x. Inr (f x))"

definition assign :: "string \<Rightarrow> (frame \<Rightarrow> error + series) \<Rightarrow> frame \<Rightarrow> error + frame" where
  "assign name rhs dataframe = bindE (rhs dataframe) (\<lambda>s. Inr (set_col name s dataframe))"

definition with_local ::
  "(frame \<Rightarrow> error + 'a) \<Rightarrow> ('a \<Rightarrow> frame \<Rightarrow> error + frame) \<Rightarrow> frame \<Rightarrow> error + frame" where
  "with_local rhs body dataframe = bindE (rhs dataframe) (\<lambda>v. body v dataframe)"

fun steps :: "(frame \<Rightarrow> error + frame) list \<Rightarrow> frame \<Rightarrow> error + frame" where
  "steps [] dataframe = Inr dataframe"
| "steps (f # fs) dataframe = bindE (f dataframe) (steps fs)"

text \<open>
  The indicator functions of the libraries the strategies import (talib, qtpylib's
  Bollinger bands, the Ichimoku cloud of the technical package) are not part of the
  repository: they are parameters of the model, taken as pure functions. A talib function
  receives either the whole dataframe or one series.
\<close>

datatype ta_input = DF frame | SR series

record lib =
  ta_SMA :: "ta_input \<Rightarrow> nat option \<Rightarrow> series"
  ta_EMA :: "ta_input \<Rightarrow> nat option \<Rightarrow> series"
  ta_RSI :: "ta_input \<Rightarrow> nat option \<Rightarrow> series"
  ta_ATR :: "ta_input \<Rightarrow> nat option \<Rightarrow> series"
  qtpylib_bollinger_bands :: "series \<Rightarrow> nat \<Rightarrow> real \<Rightarrow> (string \<rightharpoonup> series)"
  ftt_ichimoku :: "frame \<Rightarrow> nat \<Rightarrow> nat \<Rightarrow> nat \<Rightarrow> nat \<Rightarrow> (string \<rightharpoonup> series)"

text \<open>\<^verbatim>\<open>GridStrategy.populate_indicators\<close>.\<close>

definition GridStrategy_populate_indicators ::
  "lib \<Rightarrow> strategy \<Rightarrow> frame \<Rightarrow> 'meta \<Rightarrow> error + frame" where
  "GridStrategy_populate_indicators lib self dataframe metadata =
     steps [
       assign ''sma_20'' (\<lambda>d. Inr (ta_SMA lib (DF d) (Some 20))),
       assign ''sma_50'' (\<lambda>d. Inr (ta_SMA lib (DF d) (Some 50))),
       assign ''rsi'' (\<lambda>d. Inr (ta_RSI lib (DF d) (Some 14))),
       assign ''atr'' (\<lambda>d. Inr (ta_ATR lib (DF d) (Some 14))),
       with_local
         (\<lambda>d. mapE (\<lambda>close. qtpylib_bollinger_bands lib close 20 2) (col d ''close''))
         (\<lambda>bollinger. steps [
            assign ''bb_lowerband'' (\<lambda>d. lookup bollinger ''lower''),
            assign ''bb_upperband'' (\<lambda>d. lookup bollinger ''upper''),
            assign ''bb_middleband'' (\<lambda>d. lookup bollinger ''mid'')]),
       assign ''grid_buy_level'' (\<lambda>d.
         mapE (\<lambda>close. series_mul close (scalar (1 - grid_spacing_percent self / 100)))
           (col d ''close'')),
       assign ''grid_sell_level'' (\<lambda>d.
         mapE (\<lambda>close. series_mul close (scalar (1 + grid_spacing_percent self / 100)))
           (col d ''close'')),
       assign ''volume_sma'' (\<lambda>d.
         mapE (\<lambda>volume. ta_SMA lib (SR volume) (Some 20)) (col d ''volume''))
     ] dataframe"

text \<open>\<^verbatim>\<open>GridStrategyV2.populate_indicators\<close>.\<close>

definition GridStrategyV2_populate_indicators ::
  "lib \<Rightarrow> strategy \<Rightarrow> frame \<Rightarrow> 'meta \<Rightarrow> error + frame" where
  "GridStrategyV2_populate_indicators lib self dataframe metadata =
     steps [
       with_local
         (\<lambda>d. mapE (\<lambda>close. qtpylib_bollinger_bands lib close 20 2) (col d ''close''))
         (\<lambda>bollinger. steps [
            assign ''bb_lowerband'' (\<lambda>d. lookup bollinger ''lower''),
            assign ''bb_upperband'' (\<lambda>d. lookup bollinger ''upper''),
            assign ''bb_middleband'' (\<lambda>d. lookup bollinger ''mid'')]),
       assign ''rsi'' (\<lambda>d. Inr (ta_RSI lib (DF d) (Some 14))),
       assign ''volume_sma'' (\<lambda>d.
         mapE (\<lambda>volume. ta_SMA lib (SR volume) (Some 20)) (col d ''volume''))
     ] dataframe"

subsection \<open>Heikin-Ashi\<close>

text \<open>
  Modelled from the spec: the maximum, the minimum and the average of cells that the
  Heikin-Ashi transform takes; an operation on an undefined input is undefined.
\<close>

definition cell_max :: "cell \<Rightarrow> cell \<Rightarrow> cell" where
  "cell_max a b = (if a = NaN \<or> b = NaN then NaN else if cell_lt a b then b else a)"

definition cell_min :: "cell \<Rightarrow> cell \<Rightarrow> cell" where
  "cell_min a b = (if a = NaN \<or> b = NaN then NaN else if cell_lt b a then b else a)"

definition average :: "cell \<Rightarrow> cell \<Rightarrow> cell" where
  "average a b = cell_div (cell_add a b) (Num 2)"

text \<open>
  Modelled from the spec: the columns of \<^verbatim>\<open>qtpylib.heikinashi\<close>, a function of the host
  framework's indicator library that the repository calls and does not contain. The spec:
  the smoothed open at row \<open>i\<close> is the average of the smoothed open and the close at row
  \<open>i - 1\<close>, the smoothed open at row 0 is the average of open and close at row 0; the
  smoothed high is the maximum of high, smoothed open and close at the row, the smoothed
  low the minimum of low, smoothed open and close.
\<close>

primrec ha_open :: "series \<Rightarrow> series \<Rightarrow> series" where
  "ha_open opn cls 0 = average (opn 0) (cls 0)"
| "ha_open opn cls (Suc i) = average (ha_open opn cls i) (cls i)"

definition ha_high :: "series \<Rightarrow> series \<Rightarrow> series \<Rightarrow> series" where
  "ha_high high opn cls = (\<lambda>i. cell_max (high i) (cell_max (ha_open opn cls i) (cls i)))"

definition ha_low :: "series \<Rightarrow> series \<Rightarrow> series \<Rightarrow> series" where
  "ha_low low opn cls = (\<lambda>i. cell_min (low i) (cell_min (ha_open opn cls i) (cls i)))"

text \<open>
  Modelled from the spec: \<^verbatim>\<open>qtpylib.heikinashi\<close> itself, which reads the four price columns
  of its argument and returns the smoothed open, high and low under their own names.
\<close>

definition qtpylib_heikinashi :: "frame \<Rightarrow> error + (string \<rightharpoonup> series)" where
  "qtpylib_heikinashi bars =
     bindE (col bars ''open'') (\<lambda>opn.
     bindE (col bars ''high'') (\<lambda>high.
     bindE (col bars ''low'') (\<lambda>low.
     bindE (col bars ''close'') (\<lambda>cls.
       Inr [''open'' \<mapsto> ha_open opn cls,
            ''high'' \<mapsto> ha_high high opn cls,
            ''low'' \<mapsto> ha_low low opn cls]))))"

subsection \<open>The IchiV1 indicators\<close>

text \<open>
  \<^verbatim>\<open>IchiV1_Fixed.populate_indicators\<close> and \<^verbatim>\<open>IchiV1_Optimizable.populate_indicators\<close>
  have the same body; the second also receives the pair's metadata, which it ignores.
\<close>

definition ema_of :: "lib \<Rightarrow> string \<Rightarrow> nat \<Rightarrow> frame \<Rightarrow> error + series" where
  "ema_of lib name timeperiod d = mapE (\<lambda>s. ta_EMA lib (SR s) (Some timeperiod)) (col d name)"

text \<open>The Heikin-Ashi candles replace open, high and low; close stays the original price.\<close>

definition heikinashi_steps :: "(frame \<Rightarrow> error + frame) list" where
  "heikinashi_steps = [
     with_local qtpylib_heikinashi
       (\<lambda>heikinashi. steps [
          assign ''open'' (\<lambda>d. lookup heikinashi ''open''),
          assign ''high'' (\<lambda>d. lookup heikinashi ''high''),
          assign ''low'' (\<lambda>d. lookup heikinashi ''low'')])]"

text \<open>The moving averages of the close and of the (smoothed) open.\<close>

definition trend_steps :: "lib \<Rightarrow> (frame \<Rightarrow> error + frame) list" where
  "trend_steps lib = [
     assign ''trend_close_5m'' (\<lambda>d. col d ''close''),
     assign ''trend_close_15m'' (ema_of lib ''close'' 3),
     assign ''trend_close_30m'' (ema_of lib ''close'' 6),
     assign ''trend_close_1h'' (ema_of lib ''close'' 12),
     assign ''trend_close_2h'' (ema_of lib ''close'' 24),
     assign ''trend_close_4h'' (ema_of lib ''close'' 48),
     assign ''trend_close_6h'' (ema_of lib ''close'' 72),
     assign ''trend_close_8h'' (ema_of lib ''close'' 96),
     assign ''trend_open_5m'' (\<lambda>d. col d ''open''),
     assign ''trend_open_15m'' (ema_of lib ''open'' 3),
     assign ''trend_open_30m'' (ema_of lib ''open'' 6),
     assign ''trend_open_1h'' (ema_of lib ''open'' 12),
     assign ''trend_open_2h'' (ema_of lib ''open'' 24),
     assign ''trend_open_4h'' (ema_of lib ''open'' 48),
     assign ''trend_open_6h'' (ema_of lib ''open'' 72),
     assign ''trend_open_8h'' (ema_of lib ''open'' 96)]"

text \<open>The fan magnitude and its gain over the previous row.\<close>

definition fan_steps :: "(frame \<Rightarrow> error + frame) list" where
  "fan_steps = [
     assign ''fan_magnitude'' (\<lambda>d.
       bindE (col d ''trend_close_1h'') (\<lambda>trend_close_1h.
       bindE (col d ''trend_close_8h'') (\<lambda>trend_close_8h.
         Inr (series_div trend_close_1h trend_close_8h)))),
     assign ''fan_magnitude_gain'' (\<lambda>d.
       bindE (col d ''fan_magnitude'') (\<lambda>fan_magnitude.
         Inr (series_div fan_magnitude (shift 1 fan_magnitude))))]"

text \<open>The Ichimoku cloud and the average true range.\<close>

definition cloud_steps :: "lib \<Rightarrow> (frame \<Rightarrow> error + frame) list" where
  "cloud_steps lib = [
     with_local (\<lambda>d. Inr (ftt_ichimoku lib d 20 60 120 30))
       (\<lambda>ichimoku. steps [
          assign ''tenkan_sen'' (\<lambda>d. lookup ichimoku ''tenkan_sen''),
          assign ''kijun_sen'' (\<lambda>d. lookup ichimoku ''kijun_sen''),
          assign ''senkou_a'' (\<lambda>d. lookup ichimoku ''senkou_span_a''),
          assign ''senkou_b'' (\<lambda>d. lookup ichimoku ''senkou_span_b''),
          assign ''leading_senkou_span_a'' (\<lambda>d. lookup ichimoku ''leading_senkou_span_a''),
          assign ''leading_senkou_span_b'' (\<lambda>d. lookup ichimoku ''leading_senkou_span_b''),
          assign ''cloud_green'' (\<lambda>d. lookup ichimoku ''cloud_green''),
          assign ''cloud_red'' (\<lambda>d. lookup ichimoku ''cloud_red'')]),
     assign ''atr'' (\<lambda>d. Inr (ta_ATR lib (DF d) None))]"

definition IchiV1_populate_indicators :: "lib \<Rightarrow> frame \<Rightarrow> error + frame" where
  "IchiV1_populate_indicators lib dataframe =
     steps (heikinashi_steps @ trend_steps lib @ fan_steps @ cloud_steps lib) dataframe"

definition IchiV1_Fixed_populate_indicators :: "lib \<Rightarrow> frame \<Rightarrow> error + frame" where
  "IchiV1_Fixed_populate_indicators lib dataframe = IchiV1_populate_indicators lib dataframe"

definition IchiV1_Optimizable_populate_indicators ::
  "lib \<Rightarrow> frame \<Rightarrow> 'meta \<Rightarrow> error + frame" where
  "IchiV1_Optimizable_populate_indicators lib dataframe metadata =
     IchiV1_populate_indicators lib dataframe"

section \<open>The IchiV1 signals\<close>

text \<open>
  The tunable parameters: \<^verbatim>\<open>IchiV1_Fixed\<close> reads them from the dictionaries
  \<^verbatim>\<open>buy_params\<close> and \<^verbatim>\<open>sell_params\<close>, \<^verbatim>\<open>IchiV1_Optimizable\<close> reads the current value
  of each hyperopt parameter.
\<close>

record ichi_params =
  buy_trend_above_senkou_level :: int
  buy_trend_bullish_level :: int
  buy_fan_magnitude_shift_value :: int
  buy_min_fan_magnitude_gain :: real
  sell_trend_indicator :: string

definition IchiV1_Fixed :: ichi_params where
  "IchiV1_Fixed = \<lparr>buy_trend_above_senkou_level = 1, buy_trend_bullish_level = 4,
     buy_fan_magnitude_shift_value = 1, buy_min_fan_magnitude_gain = 1.001,
     sell_trend_indicator = ''trend_close_30m''\<rparr>"

definition IchiV1_Optimizable :: ichi_params where
  "IchiV1_Optimizable = \<lparr>buy_trend_above_senkou_level = 1, buy_trend_bullish_level = 6,
     buy_fan_magnitude_shift_value = 3, buy_min_fan_magnitude_gain = 1.002,
     sell_trend_indicator = ''trend_close_30m''\<rparr>"

text \<open>\<^verbatim>\<open>dataframe[a] > dataframe[b]\<close>.\<close>

definition col_gt :: "frame \<Rightarrow> string \<Rightarrow> string \<Rightarrow> error + mask" where
  "col_gt dataframe a b =
     bindE (col dataframe a) (\<lambda>x. bindE (col dataframe b) (\<lambda>y. Inr (series_gt x y)))"

text \<open>The list \<^verbatim>\<open>conditions\<close> of \<^verbatim>\<open>populate_entry_trend\<close>, in the order of the appends.\<close>

definition above_senkou_conditions :: "int \<Rightarrow> frame \<Rightarrow> (error + mask) list" where
  "above_senkou_conditions level dataframe =
     (if level \<ge> 1 then [col_gt dataframe ''trend_close_5m'' ''senkou_a'',
                         col_gt dataframe ''trend_close_5m'' ''senkou_b''] else []) @
     (if level \<ge> 2 then [col_gt dataframe ''trend_close_15m'' ''senkou_a'',
                         col_gt dataframe ''trend_close_15m'' ''senkou_b''] else []) @
     (if level \<ge> 3 then [col_gt dataframe ''trend_close_30m'' ''senkou_a'',
                         col_gt dataframe ''trend_close_30m'' ''senkou_b''] else []) @
     (if level \<ge> 4 then [col_gt dataframe ''trend_close_1h'' ''senkou_a'',
                         col_gt dataframe ''trend_close_1h'' ''senkou_b''] else []) @
     (if level \<ge> 5 then [col_gt dataframe ''trend_close_2h'' ''senkou_a'',
                         col_gt dataframe ''trend_close_2h'' ''senkou_b''] else []) @
     (if level \<ge> 6 then [col_gt dataframe ''trend_close_4h'' ''senkou_a'',
                         col_gt dataframe ''trend_close_4h'' ''senkou_b''] else []) @
     (if level \<ge> 7 then [col_gt dataframe ''trend_close_6h'' ''senkou_a'',
                         col_gt dataframe ''trend_close_6h'' ''senkou_b''] else []) @
     (if level \<ge> 8 then [col_gt dataframe ''trend_close_8h'' ''senkou_a'',
                         col_gt dataframe ''trend_close_8h'' ''senkou_b''] else [])"

definition bullish_conditions :: "int \<Rightarrow> frame \<Rightarrow> (error + mask) list" where
  "bullish_conditions level dataframe =
     (if level \<ge> 1 then [col_gt dataframe ''trend_close_5m'' ''trend_open_5m''] else []) @
     (if level \<ge> 2 then [col_gt dataframe ''trend_close_15m'' ''trend_open_15m''] else []) @
     (if level \<ge> 3 then [col_gt dataframe ''trend_close_30m'' ''trend_open_30m''] else []) @
     (if level \<ge> 4 then [col_gt dataframe ''trend_close_1h'' ''trend_open_1h''] else []) @
     (if level \<ge> 5 then [col_gt dataframe ''trend_close_2h'' ''trend_open_2h''] else []) @
     (if level \<ge> 6 then [col_gt dataframe ''trend_close_4h'' ''trend_open_4h''] else []) @
     (if level \<ge> 7 then [col_gt dataframe ''trend_close_6h'' ''trend_open_6h''] else []) @
     (if level \<ge> 8 then [col_gt dataframe ''trend_close_8h'' ''trend_open_8h''] else [])"

text \<open>\<^verbatim>\<open>range(n)\<close> of a Python integer: empty when \<open>n \<le> 0\<close>.\<close>

definition range_list :: "int \<Rightarrow> nat list" where
  "range_list n = [0 ..< nat n]"

definition fan_magnitude_conditions :: "real \<Rightarrow> int \<Rightarrow> frame \<Rightarrow> (error + mask) list" where
  "fan_magnitude_conditions min_gain shift_value dataframe =
     [mapE (\<lambda>fan_magnitude_gain. series_ge fan_magnitude_gain (scalar min_gain))
        (col dataframe ''fan_magnitude_gain''),
      mapE (\<lambda>fan_magnitude. series_gt fan_magnitude (scalar 1))
        (col dataframe ''fan_magnitude'')] @
     map (\<lambda>x. mapE (\<lambda>fan_magnitude. series_lt (shift (x + 1) fan_magnitude) fan_magnitude)
                (col dataframe ''fan_magnitude''))
       (range_list shift_value)"

definition entry_conditions :: "ichi_params \<Rightarrow> frame \<Rightarrow> (error + mask) list" where
  "entry_conditions self dataframe =
     above_senkou_conditions (buy_trend_above_senkou_level self) dataframe @
     bullish_conditions (buy_trend_bullish_level self) dataframe @
     fan_magnitude_conditions (buy_min_fan_magnitude_gain self)
       (buy_fan_magnitude_shift_value self) dataframe"

text \<open>
  Building the list evaluates the conditions in order, so the first failing column read
  is the error raised.
\<close>

fun collect :: "(error + 'a) list \<Rightarrow> error + 'a list" where
  "collect [] = Inr []"
| "collect (c # cs) = bindE c (\<lambda>m. bindE (collect cs) (\<lambda>ms. Inr (m # ms)))"

text \<open>
  \<^verbatim>\<open>if conditions: dataframe.loc[reduce(lambda x, y: x & y, conditions), name] = 1\<close>:
  an empty list leaves the dataframe as it is.
\<close>

definition activate :: "(error + mask) list \<Rightarrow> string \<Rightarrow> frame \<Rightarrow> error + frame" where
  "activate conditions name dataframe =
     bindE (collect conditions) (\<lambda>cs.
       case cs of
         [] \<Rightarrow> Inr dataframe
       | c # rest \<Rightarrow> Inr (loc_set (foldl mask_and c rest) name (Num 1) dataframe))"

text \<open>
  \<^verbatim>\<open>populate_entry_trend\<close> of both IchiV1 classes: the bodies differ only in how a
  parameter is read.
\<close>

definition IchiV1_Fixed_populate_entry_trend :: "ichi_params \<Rightarrow> frame \<Rightarrow> error + frame" where
  "IchiV1_Fixed_populate_entry_trend self dataframe =
     activate (entry_conditions self dataframe) ''enter_long'' dataframe"

definition IchiV1_Optimizable_populate_entry_trend ::
  "ichi_params \<Rightarrow> frame \<Rightarrow> 'meta \<Rightarrow> error + frame" where
  "IchiV1_Optimizable_populate_entry_trend self dataframe metadata =
     activate (entry_conditions self dataframe) ''enter_long'' dataframe"

text \<open>
  Modelled from the spec: \<^verbatim>\<open>qtpylib.crossed_below\<close>, a function of the host framework's
  indicator library that the repository calls and does not contain. The spec: the price
  crosses below the indicator at row \<open>i\<close> iff the price was at or above the indicator at
  row \<open>i - 1\<close> and is below it at row \<open>i\<close>; false if either input is undefined at row
  \<open>i - 1\<close> or \<open>i\<close>, which includes row 0.
\<close>

definition qtpylib_crossed_below :: "series \<Rightarrow> series \<Rightarrow> mask" where
  "qtpylib_crossed_below price indicator =
     (\<lambda>i. 0 < i \<and> cell_ge (price (i - 1)) (indicator (i - 1)) \<and> cell_lt (price i) (indicator i))"

definition exit_conditions :: "ichi_params \<Rightarrow> frame \<Rightarrow> (error + mask) list" where
  "exit_conditions self dataframe =
     [bindE (col dataframe ''trend_close_5m'') (\<lambda>price.
      bindE (col dataframe (sell_trend_indicator self)) (\<lambda>indicator.
        Inr (qtpylib_crossed_below price indicator)))]"

definition IchiV1_Fixed_populate_exit_trend :: "ichi_params \<Rightarrow> frame \<Rightarrow> error + frame" where
  "IchiV1_Fixed_populate_exit_trend self dataframe =
     activate (exit_conditions self dataframe) ''exit_long'' dataframe"

definition IchiV1_Optimizable_populate_exit_trend ::
  "ichi_params \<Rightarrow> frame \<Rightarrow> 'meta \<Rightarrow> error + frame" where
  "IchiV1_Optimizable_populate_exit_trend self dataframe metadata =
     activate (exit_conditions self dataframe) ''exit_long'' dataframe"

section \<open>Reading a result, and concrete inputs\<close>

text \<open>Whether a run returned a dataframe whose flag is set at the row; a raise sets none.\<close>

definition result_flag :: "error + frame \<Rightarrow> string \<Rightarrow> nat \<Rightarrow> bool" where
  "result_flag r name i = (case r of Inl e \<Rightarrow> False | Inr d \<Rightarrow> flag_set d name i)"

text \<open>Whether a condition of the list was built without a raise and holds at the row.\<close>

definition holds_at :: "nat \<Rightarrow> error + mask \<Rightarrow> bool" where
  "holds_at i r = (case r of Inl e \<Rightarrow> False | Inr m \<Rightarrow> m i)"

text \<open>
  What a signal method may do to a dataframe: keep the rows and every other column, and
  in the flag column write 1 at the rows of the condition and leave every other row as it
  was (missing, when the column did not exist).
\<close>

definition assigns_one_where :: "frame \<Rightarrow> frame \<Rightarrow> string \<Rightarrow> mask \<Rightarrow> bool" where
  "assigns_one_where d d' name cond \<longleftrightarrow>
     nrows d' = nrows d \<and>
     (\<forall>n. n \<noteq> name \<longrightarrow> cols d' n = cols d n) \<and>
     (\<forall>i. cell_at d' name i = (if cond i then Num 1 else cell_at d name i))"

definition result_assigns :: "error + frame \<Rightarrow> frame \<Rightarrow> string \<Rightarrow> mask \<Rightarrow> bool" where
  "result_assigns r d name cond =
     (case r of Inl e \<Rightarrow> True | Inr d' \<Rightarrow> assigns_one_where d d' name cond)"

text \<open>The cell a run left in a column; a raise leaves none.\<close>

definition result_cell :: "error + frame \<Rightarrow> string \<Rightarrow> nat \<Rightarrow> cell" where
  "result_cell r name i = (case r of Inl e \<Rightarrow> NaN | Inr d \<Rightarrow> cell_at d name i)"

text \<open>
  The host's lifecycle, as the spec gives it: the indicator stage, then the entry signal,
  then the exit signal.
\<close>

definition run_stages ::
  "(frame \<Rightarrow> error + frame) \<Rightarrow> (frame \<Rightarrow> error + frame) \<Rightarrow> (frame \<Rightarrow> error + frame) \<Rightarrow>
   frame \<Rightarrow> error + frame" where
  "run_stages indicators entry exit candles =
     bindE (indicators candles) (\<lambda>d. bindE (entry d) exit)"

text \<open>A step that, when it returns, has kept the rows and every column outside the names.\<close>

definition assigns_within :: "string list \<Rightarrow> (frame \<Rightarrow> error + frame) \<Rightarrow> bool" where
  "assigns_within names f \<longleftrightarrow>
     (\<forall>d d'. f d = Inr d' \<longrightarrow>
        nrows d' = nrows d \<and> (\<forall>n. n \<notin> set names \<longrightarrow> cols d' n = cols d n))"

text \<open>The columns each indicator stage assigns.\<close>

definition grid_indicator_names :: "string list" where
  "grid_indicator_names = [''sma_20'', ''sma_50'', ''rsi'', ''atr'', ''bb_lowerband'',
     ''bb_upperband'', ''bb_middleband'', ''grid_buy_level'', ''grid_sell_level'',
     ''volume_sma'']"

definition grid_v2_indicator_names :: "string list" where
  "grid_v2_indicator_names = [''bb_lowerband'', ''bb_upperband'', ''bb_middleband'', ''rsi'',
     ''volume_sma'']"

definition trend_names :: "string list" where
  "trend_names = [''trend_close_5m'', ''trend_close_15m'', ''trend_close_30m'',
     ''trend_close_1h'', ''trend_close_2h'', ''trend_close_4h'', ''trend_close_6h'',
     ''trend_close_8h'', ''trend_open_5m'', ''trend_open_15m'', ''trend_open_30m'',
     ''trend_open_1h'', ''trend_open_2h'', ''trend_open_4h'', ''trend_open_6h'',
     ''trend_open_8h'']"

definition fan_names :: "string list" where
  "fan_names = [''fan_magnitude'', ''fan_magnitude_gain'']"

definition cloud_names :: "string list" where
  "cloud_names = [''tenkan_sen'', ''kijun_sen'', ''senkou_a'', ''senkou_b'',
     ''leading_senkou_span_a'', ''leading_senkou_span_b'', ''cloud_green'', ''cloud_red'',
     ''atr'']"

definition ichi_indicator_names :: "string list" where
  "ichi_indicator_names = [''open'', ''high'', ''low''] @ trend_names @ fan_names @ cloud_names"

text \<open>A one-row dataframe whose close is zero, at its lower Bollinger band.\<close>

definition zero_close_frame :: frame where
  "zero_close_frame = \<lparr>nrows = 1, cols = [
     ''close'' \<mapsto> series_of [Num 0],
     ''volume'' \<mapsto> series_of [Num 1],
     ''bb_lowerband'' \<mapsto> series_of [Num 0],
     ''rsi'' \<mapsto> series_of [Num 50]]\<rparr>"

text \<open>A one-row dataframe on which both Grid entry conditions hold.\<close>

definition entry_row_frame :: frame where
  "entry_row_frame = \<lparr>nrows = 1, cols = [
     ''close'' \<mapsto> series_of [Num 10],
     ''volume'' \<mapsto> series_of [Num 100],
     ''bb_lowerband'' \<mapsto> series_of [Num 10],
     ''rsi'' \<mapsto> series_of [Num 50],
     ''sma_20'' \<mapsto> series_of [Num 11],
     ''volume_sma'' \<mapsto> series_of [Num 50]]\<rparr>"

text \<open>The parameters of the entry scenario of the spec.\<close>

definition scenario_params :: ichi_params where
  "scenario_params = \<lparr>buy_trend_above_senkou_level = 1, buy_trend_bullish_level = 1,
     buy_fan_magnitude_shift_value = 0, buy_min_fan_magnitude_gain = 1.0,
     sell_trend_indicator = ''trend_close_30m''\<rparr>"

text \<open>
  Two rows after the indicator stage: at row 1 the price is above the cloud and the
  smoothed open, the fan magnitude is above 1, and it has fallen from 2 to 1.5, so its
  gain is 0.75.
\<close>

definition fading_fan_frame :: frame where
  "fading_fan_frame = \<lparr>nrows = 2, cols = [
     ''trend_close_5m'' \<mapsto> series_of [Num 10, Num 10],
     ''senkou_a'' \<mapsto> series_of [Num 8, Num 8],
     ''senkou_b'' \<mapsto> series_of [Num 7, Num 7],
     ''trend_open_5m'' \<mapsto> series_of [Num 9, Num 9],
     ''fan_magnitude'' \<mapsto> series_of [Num 2, Num 1.5],
     ''fan_magnitude_gain'' \<mapsto> series_of [NaN, Num 0.75]]\<rparr>"

text \<open>
  Two rows carrying the indicator columns of every strategy: at row 1 the Grid entries
  and the IchiV1 entry and exit conditions hold.
\<close>

definition full_frame :: frame where
  "full_frame = \<lparr>nrows = 2, cols = [
     ''close'' \<mapsto> series_of [Num 10, Num 10],
     ''volume'' \<mapsto> series_of [Num 100, Num 100],
     ''bb_lowerband'' \<mapsto> series_of [Num 10, Num 10],
     ''bb_upperband'' \<mapsto> series_of [Num 12, Num 12],
     ''rsi'' \<mapsto> series_of [Num 50, Num 50],
     ''sma_20'' \<mapsto> series_of [Num 11, Num 11],
     ''volume_sma'' \<mapsto> series_of [Num 50, Num 50],
     ''trend_close_5m'' \<mapsto> series_of [Num 10, Num 10],
     ''trend_close_15m'' \<mapsto> series_of [Num 10, Num 9.5],
     ''trend_close_30m'' \<mapsto> series_of [Num 9, Num 10.5],
     ''trend_open_5m'' \<mapsto> series_of [Num 9, Num 9],
     ''trend_open_15m'' \<mapsto> series_of [Num 9, Num 9],
     ''senkou_a'' \<mapsto> series_of [Num 8, Num 8],
     ''senkou_b'' \<mapsto> series_of [Num 7, Num 7],
     ''fan_magnitude'' \<mapsto> series_of [Num 1.5, Num 2],
     ''fan_magnitude_gain'' \<mapsto> series_of [NaN, Num (4 / 3)]]\<rparr>"

text \<open>The keys of the dictionary the Ichimoku function returns that the strategy reads.\<close>

definition ichimoku_keys :: "string list" where
  "ichimoku_keys = [''tenkan_sen'', ''kijun_sen'', ''senkou_span_a'', ''senkou_span_b'',
     ''leading_senkou_span_a'', ''leading_senkou_span_b'', ''cloud_green'', ''cloud_red'']"

text \<open>
  A stand-in for the indicator libraries, exact on a flat series: a moving average and the
  Bollinger bands of a flat series are the series itself once the window is full and are
  undefined before; the oscillators and the cloud are left undefined.
\<close>

definition price_of :: "ta_input \<Rightarrow> series" where
  "price_of inp = (case inp of DF d \<Rightarrow> cell_at d ''close'' | SR s \<Rightarrow> s)"

definition windowed :: "nat option \<Rightarrow> series \<Rightarrow> series" where
  "windowed timeperiod s =
     (\<lambda>i. case timeperiod of None \<Rightarrow> NaN | Some n \<Rightarrow> if i + 1 < n then NaN else s i)"

definition nan_series :: series where
  "nan_series = (\<lambda>i. NaN)"

definition flat_lib :: lib where
  "flat_lib = \<lparr>
     ta_SMA = (\<lambda>inp timeperiod. windowed timeperiod (price_of inp)),
     ta_EMA = (\<lambda>inp timeperiod. windowed timeperiod (price_of inp)),
     ta_RSI = (\<lambda>inp timeperiod. nan_series),
     ta_ATR = (\<lambda>inp timeperiod. nan_series),
     qtpylib_bollinger_bands = (\<lambda>s window stds.
       [''lower'' \<mapsto> windowed (Some window) s, ''mid'' \<mapsto> windowed (Some window) s,
        ''upper'' \<mapsto> windowed (Some window) s]),
     ftt_ichimoku = (\<lambda>d conversion base lagging displacement.
       [''tenkan_sen'' \<mapsto> nan_series, ''kijun_sen'' \<mapsto> nan_series,
        ''senkou_span_a'' \<mapsto> nan_series, ''senkou_span_b'' \<mapsto> nan_series,
        ''leading_senkou_span_a'' \<mapsto> nan_series, ''leading_senkou_span_b'' \<mapsto> nan_series,
        ''cloud_green'' \<mapsto> nan_series, ''cloud_red'' \<mapsto> nan_series])\<rparr>"

text \<open>Candles of a flat market: every price and the volume are 100 at every row.\<close>

definition flat_candles :: "nat \<Rightarrow> frame" where
  "flat_candles n = \<lparr>nrows = n, cols = [
     ''open'' \<mapsto> scalar 100, ''high'' \<mapsto> scalar 100, ''low'' \<mapsto> scalar 100,
     ''close'' \<mapsto> scalar 100, ''volume'' \<mapsto> scalar 100]\<rparr>"

text \<open>Two candles of a rising market.\<close>

definition two_candles :: frame where
  "two_candles = \<lparr>nrows = 2, cols = [
     ''open'' \<mapsto> series_of [Num 1, Num 4], ''high'' \<mapsto> series_of [Num 3, Num 6],
     ''low'' \<mapsto> series_of [Num 1, Num 2], ''close'' \<mapsto> series_of [Num 3, Num 5],
     ''volume'' \<mapsto> series_of [Num 5, Num 5]]\<rparr>"

section \<open>Auxiliary facts\<close>

subsection \<open>Results, columns and masked assignment\<close>

lemma bindE_Inr_iff: "bindE m f = Inr y \<longleftrightarrow> (\<exists>x. m = Inr x \<and> f x = Inr y)"
  by (cases m) (simp_all add: bindE_def)

lemma bindE_Inr [simp]: "bindE (Inr x) f = f x"
  by (simp add: bindE_def)

lemma bindE_Inl [simp]: "bindE (Inl e) f = Inl e"
  by (simp add: bindE_def)

lemma lookup_Inr_iff: "lookup t name = Inr s \<longleftrightarrow> t name = Some s"
  by (simp add: lookup_def split: option.splits)

lemma col_Inr_iff: "col d name = Inr s \<longleftrightarrow> cols d name = Some s"
  by (simp add: col_def lookup_Inr_iff)

lemma cell_at_loc_set:
  "cell_at (loc_set m name v d) name' i =
     (if name' = name then (if m i then v else cell_at d name i) else cell_at d name' i)"
  by (simp add: loc_set_def set_col_def cell_at_def)

lemma flag_set_loc_set:
  "flag_set (loc_set m name (Num 1) d) name i \<longleftrightarrow> m i \<or> flag_set d name i"
  by (simp add: flag_set_def cell_at_loc_set)

lemma cell_at_Some: "cols d name = Some s \<Longrightarrow> cell_at d name i = s i"
  by (simp add: cell_at_def)

lemma cols_loc_set:
  "cols (loc_set m name v d) = (cols d)(name \<mapsto> (\<lambda>i. if m i then v else cell_at d name i))"
  by (simp add: loc_set_def set_col_def)

lemma nrows_loc_set: "nrows (loc_set m name v d) = nrows d"
  by (simp add: loc_set_def set_col_def)

subsection \<open>The Grid signals as one masked assignment\<close>

lemmas mask_defs = mask_and_def mask_or_def series_lt_def series_le_def series_gt_def
  series_ge_def scalar_def

lemma GridStrategy_entry_Inr:
  assumes "GridStrategy_populate_entry_trend d md = Inr d'"
  shows "d' = loc_set (\<lambda>i.
      (cell_le (cell_at d ''close'' i) (cell_at d ''bb_lowerband'' i) \<or>
       cell_lt (cell_at d ''rsi'' i) (Num 40) \<or>
       cell_lt (cell_at d ''close'' i) (cell_at d ''sma_20'' i) \<and>
       cell_gt (cell_at d ''volume'' i) (cell_at d ''volume_sma'' i)) \<and>
      cell_gt (cell_at d ''volume'' i) (Num 0) \<and>
      cell_gt (cell_at d ''close'' i) (Num 0)) ''enter_long'' (Num 1) d"
  using assms
  by (auto simp: GridStrategy_populate_entry_trend_def bindE_Inr_iff col_Inr_iff mask_defs
      cell_at_Some intro!: arg_cong [where f = "\<lambda>m. loc_set m ''enter_long'' (Num 1) d"])

lemma GridStrategy_exit_Inr:
  assumes "GridStrategy_populate_exit_trend d md = Inr d'"
  shows "d' = loc_set (\<lambda>i.
      (cell_ge (cell_at d ''close'' i) (cell_at d ''bb_upperband'' i) \<or>
       cell_gt (cell_at d ''rsi'' i) (Num 60) \<or>
       cell_gt (cell_at d ''close'' i) (cell_at d ''sma_20'' i) \<and>
       cell_gt (cell_at d ''volume'' i) (cell_at d ''volume_sma'' i)) \<and>
      cell_gt (cell_at d ''volume'' i) (Num 0)) ''exit_long'' (Num 1) d"
  using assms
  by (auto simp: GridStrategy_populate_exit_trend_def bindE_Inr_iff col_Inr_iff mask_defs
      cell_at_Some intro!: arg_cong [where f = "\<lambda>m. loc_set m ''exit_long'' (Num 1) d"])

lemma GridStrategyV2_entry_Inr:
  assumes "GridStrategyV2_populate_entry_trend d md = Inr d'"
  shows "d' = loc_set (\<lambda>i.
      (cell_le (cell_at d ''close'' i) (cell_at d ''bb_lowerband'' i) \<or>
       cell_lt (cell_at d ''rsi'' i) (Num 30)) \<and>
      cell_gt (cell_at d ''volume'' i) (Num 0)) ''enter_long'' (Num 1) d"
  using assms
  by (auto simp: GridStrategyV2_populate_entry_trend_def bindE_Inr_iff col_Inr_iff mask_defs
      cell_at_Some intro!: arg_cong [where f = "\<lambda>m. loc_set m ''enter_long'' (Num 1) d"])

lemma GridStrategyV2_exit_Inr:
  assumes "GridStrategyV2_populate_exit_trend d md = Inr d'"
  shows "d' = loc_set (\<lambda>i.
      (cell_ge (cell_at d ''close'' i) (cell_at d ''bb_upperband'' i) \<and>
       cell_gt (cell_at d ''rsi'' i) (Num 70)) \<and>
      cell_gt (cell_at d ''volume'' i) (Num 0)) ''exit_long'' (Num 1) d"
  using assms
  by (auto simp: GridStrategyV2_populate_exit_trend_def bindE_Inr_iff col_Inr_iff mask_defs
      cell_at_Some intro!: arg_cong [where f = "\<lambda>m. loc_set m ''exit_long'' (Num 1) d"])

lemma result_flag_Inr_iff:
  "result_flag r name i \<longleftrightarrow> (\<exists>d. r = Inr d \<and> flag_set d name i)"
  by (cases r) (simp_all add: result_flag_def)

subsection \<open>Comparisons with undefined cells\<close>

lemma cell_lt_NaN_right [simp]: "cell_lt a NaN = False"
  by (cases a) simp_all

lemma cell_cmp_NaN [simp]:
  "cell_gt NaN b = False" "cell_gt a NaN = False"
  "cell_le NaN b = False" "cell_le a NaN = False"
  "cell_ge NaN b = False" "cell_ge a NaN = False"
  by (simp_all add: cell_gt_def cell_le_def cell_ge_def)

subsection \<open>Lists of conditions\<close>

lemma collect_Inr_iff: "collect cs = Inr ms \<longleftrightarrow> cs = map Inr ms"
proof (induction cs arbitrary: ms)
  case Nil
  then show ?case by auto
next
  case (Cons c cs)
  then show ?case
    by (cases c) (auto simp: bindE_Inr_iff)
qed

lemma foldl_mask_and: "foldl mask_and c rest i \<longleftrightarrow> c i \<and> (\<forall>m\<in>set rest. m i)"
  by (induction rest arbitrary: c) (auto simp: mask_and_def)

lemma holds_at_Inr [simp]: "holds_at i (Inr m) = m i"
  by (simp add: holds_at_def)

lemma holds_at_Inl [simp]: "holds_at i (Inl e) = False"
  by (simp add: holds_at_def)

lemma activate_Inr:
  assumes "activate conds name d = Inr d'" and "conds \<noteq> []"
  shows "d' = loc_set (\<lambda>i. \<forall>r\<in>set conds. holds_at i r) name (Num 1) d"
proof -
  from assms(1) have "\<exists>ms. collect conds = Inr ms \<and>
      (case ms of [] \<Rightarrow> Inr d
       | c # rest \<Rightarrow> Inr (loc_set (foldl mask_and c rest) name (Num 1) d)) =
      (Inr d' :: error + frame)"
    by (simp add: activate_def bindE_Inr_iff)
  then obtain ms where ms: "conds = map Inr ms"
    and d': "(case ms of [] \<Rightarrow> Inr d
              | c # rest \<Rightarrow> Inr (loc_set (foldl mask_and c rest) name (Num 1) d)) =
             (Inr d' :: error + frame)"
    unfolding collect_Inr_iff by blast
  from ms assms(2) obtain c rest where cr: "ms = c # rest"
    by (cases ms) auto
  have "foldl mask_and c rest = (\<lambda>i. \<forall>r\<in>set conds. holds_at i r)"
    by (rule ext) (simp add: foldl_mask_and ms cr)
  with d' cr show ?thesis by simp
qed

lemma activate_returns:
  "(\<exists>d'. activate conds name d = Inr d') \<longleftrightarrow> (\<forall>r\<in>set conds. \<exists>m. r = Inr m)"
proof
  assume "\<exists>d'. activate conds name d = Inr d'"
  then have "\<exists>ms. collect conds = Inr ms"
    by (auto simp: activate_def bindE_Inr_iff)
  then obtain ms where "conds = map Inr ms"
    unfolding collect_Inr_iff by blast
  then show "\<forall>r\<in>set conds. \<exists>m. r = Inr m" by auto
next
  assume a: "\<forall>r\<in>set conds. \<exists>m. r = Inr m"
  have "conds = map Inr (map projr conds)"
    using a by (induction conds) auto
  then have "collect conds = Inr (map projr conds)"
    by (simp only: collect_Inr_iff)
  then show "\<exists>d'. activate conds name d = Inr d'"
    by (auto simp: activate_def split: list.splits)
qed

lemma result_flag_activate:
  assumes "conds \<noteq> []"
  shows "result_flag (activate conds name d) name i \<longleftrightarrow>
    (\<forall>r\<in>set conds. \<exists>m. r = Inr m) \<and> ((\<forall>r\<in>set conds. holds_at i r) \<or> flag_set d name i)"
proof (cases "\<exists>d'. activate conds name d = Inr d'")
  case True
  then obtain d' where d': "activate conds name d = Inr d'" by blast
  from True have "\<forall>r\<in>set conds. \<exists>m. r = Inr m"
    using activate_returns [of conds name d] by blast
  with d' activate_Inr [OF d' assms] show ?thesis
    by (simp add: result_flag_def flag_set_loc_set)
next
  case False
  then have "\<not> (\<forall>r\<in>set conds. \<exists>m. r = Inr m)"
    using activate_returns [of conds name d] by blast
  moreover from False have "\<not> result_flag (activate conds name d) name i"
    by (cases "activate conds name d") (auto simp: result_flag_def)
  ultimately show ?thesis by blast
qed

lemma holds_at_fresh:
  assumes "\<forall>r\<in>set conds. holds_at i r"
  shows "\<forall>r\<in>set conds. \<exists>m. r = Inr m"
proof
  fix r assume "r \<in> set conds"
  with assms have "holds_at i r" by blast
  then show "\<exists>m. r = Inr m" by (cases r) auto
qed

lemma holds_at_col_gt:
  "holds_at i (col_gt d a b) = cell_gt (cell_at d a i) (cell_at d b i)"
  by (simp add: col_gt_def col_def lookup_def cell_at_def series_gt_def
      split: option.splits)

lemma holds_at_mapE_col:
  "holds_at i (mapE f (col d a)) = (case cols d a of None \<Rightarrow> False | Some s \<Rightarrow> f s i)"
  by (simp add: mapE_def col_def lookup_def split: option.splits)

lemma entry_conditions_nonempty: "entry_conditions self d \<noteq> []"
  by (simp add: entry_conditions_def fan_magnitude_conditions_def)

lemma result_flag_entry:
  "result_flag (activate (entry_conditions self d) name d) name i \<longleftrightarrow>
    (\<forall>r\<in>set (entry_conditions self d). \<exists>m. r = Inr m) \<and>
    ((\<forall>r\<in>set (entry_conditions self d). holds_at i r) \<or> flag_set d name i)"
  by (rule result_flag_activate) (rule entry_conditions_nonempty)

lemma holds_at_gain:
  "holds_at i (mapE (\<lambda>g. series_ge g (scalar x)) (col d a)) = cell_ge (cell_at d a i) (Num x)"
  by (simp add: holds_at_mapE_col cell_at_def series_ge_def scalar_def split: option.splits)

lemma holds_at_fan:
  "holds_at i (mapE (\<lambda>f. series_gt f (scalar x)) (col d a)) = cell_gt (cell_at d a i) (Num x)"
  by (simp add: holds_at_mapE_col cell_at_def series_gt_def scalar_def split: option.splits)

lemma entry_conditions_scenario:
  assumes "buy_trend_above_senkou_level self = 1" "buy_trend_bullish_level self = 1"
    "buy_fan_magnitude_shift_value self = 0"
  shows "entry_conditions self d =
    [col_gt d ''trend_close_5m'' ''senkou_a'', col_gt d ''trend_close_5m'' ''senkou_b'',
     col_gt d ''trend_close_5m'' ''trend_open_5m'',
     mapE (\<lambda>g. series_ge g (scalar (buy_min_fan_magnitude_gain self))) (col d ''fan_magnitude_gain''),
     mapE (\<lambda>f. series_gt f (scalar 1)) (col d ''fan_magnitude'')]"
  using assms
  by (simp add: entry_conditions_def above_senkou_conditions_def bullish_conditions_def
      fan_magnitude_conditions_def range_list_def)

lemma result_flag_entry_scenario:
  assumes "buy_trend_above_senkou_level self = 1" "buy_trend_bullish_level self = 1"
    "buy_fan_magnitude_shift_value self = 0" "buy_min_fan_magnitude_gain self = 1.0"
    "\<not> flag_set d name i"
  shows "result_flag (activate (entry_conditions self d) name d) name i \<longleftrightarrow>
     cell_gt (cell_at d ''trend_close_5m'' i) (cell_at d ''senkou_a'' i) \<and>
     cell_gt (cell_at d ''trend_close_5m'' i) (cell_at d ''senkou_b'' i) \<and>
     cell_gt (cell_at d ''trend_close_5m'' i) (cell_at d ''trend_open_5m'' i) \<and>
     cell_ge (cell_at d ''fan_magnitude_gain'' i) (Num 1.0) \<and>
     cell_gt (cell_at d ''fan_magnitude'' i) (Num 1)"
    (is "?L \<longleftrightarrow> ?R")
proof -
  let ?cs = "entry_conditions self d"
  have all: "(\<forall>r\<in>set ?cs. holds_at i r) \<longleftrightarrow> ?R"
    by (simp add: entry_conditions_scenario [OF assms(1-3)] holds_at_col_gt holds_at_gain
        holds_at_fan assms(4))
  have "?L \<longleftrightarrow> (\<forall>r\<in>set ?cs. holds_at i r)"
    using assms(5) holds_at_fresh [of ?cs i] by (auto simp: result_flag_entry)
  with all show ?thesis by simp
qed

lemma scenario_params_simps [simp]:
  "buy_trend_above_senkou_level scenario_params = 1"
  "buy_trend_bullish_level scenario_params = 1"
  "buy_fan_magnitude_shift_value scenario_params = 0"
  "buy_min_fan_magnitude_gain scenario_params = 1.0"
  "sell_trend_indicator scenario_params = ''trend_close_30m''"
  by (simp_all add: scenario_params_def)

lemma fading_fan_frame_cells:
  "cell_at fading_fan_frame ''trend_close_5m'' (Suc 0) = Num 10"
  "cell_at fading_fan_frame ''senkou_a'' (Suc 0) = Num 8"
  "cell_at fading_fan_frame ''senkou_b'' (Suc 0) = Num 7"
  "cell_at fading_fan_frame ''trend_open_5m'' (Suc 0) = Num 9"
  "cell_at fading_fan_frame ''fan_magnitude'' (Suc 0) = Num 1.5"
  "cell_at fading_fan_frame ''fan_magnitude_gain'' (Suc 0) = Num 0.75"
  "cell_at fading_fan_frame ''enter_long'' (Suc 0) = NaN"
  by (simp_all add: fading_fan_frame_def cell_at_def series_of_def)

lemma cell_cmp_Num [simp]:
  "cell_gt (Num x) (Num y) = (y < x)" "cell_le (Num x) (Num y) = (x \<le> y)"
  "cell_ge (Num x) (Num y) = (y \<le> x)"
  by (auto simp: cell_gt_def cell_le_def cell_ge_def)

lemma full_frame_cells:
  "cell_at full_frame ''close'' (Suc 0) = Num 10"
  "cell_at full_frame ''volume'' (Suc 0) = Num 100"
  "cell_at full_frame ''bb_lowerband'' (Suc 0) = Num 10"
  "cell_at full_frame ''bb_upperband'' (Suc 0) = Num 12"
  "cell_at full_frame ''rsi'' (Suc 0) = Num 50"
  "cell_at full_frame ''sma_20'' (Suc 0) = Num 11"
  "cell_at full_frame ''volume_sma'' (Suc 0) = Num 50"
  "cell_at full_frame ''trend_close_5m'' (Suc 0) = Num 10"
  "cell_at full_frame ''trend_close_15m'' (Suc 0) = Num 9.5"
  "cell_at full_frame ''trend_close_30m'' (Suc 0) = Num 10.5"
  "cell_at full_frame ''trend_close_5m'' 0 = Num 10"
  "cell_at full_frame ''trend_close_30m'' 0 = Num 9"
  "cell_at full_frame ''trend_open_5m'' (Suc 0) = Num 9"
  "cell_at full_frame ''trend_open_15m'' (Suc 0) = Num 9"
  "cell_at full_frame ''senkou_a'' (Suc 0) = Num 8"
  "cell_at full_frame ''senkou_b'' (Suc 0) = Num 7"
  "cell_at full_frame ''fan_magnitude'' (Suc 0) = Num 2"
  "cell_at full_frame ''fan_magnitude'' 0 = Num 1.5"
  "cell_at full_frame ''fan_magnitude_gain'' (Suc 0) = Num (4 / 3)"
  "cell_at full_frame ''enter_long'' (Suc 0) = NaN"
  "cell_at full_frame ''exit_long'' (Suc 0) = NaN"
  by (simp_all add: full_frame_def cell_at_def series_of_def)

lemma holds_at_exit:
  "holds_at i (bindE (col d a) (\<lambda>price. bindE (col d b) (\<lambda>indicator.
      Inr (qtpylib_crossed_below price indicator)))) \<longleftrightarrow>
    0 < i \<and> cell_ge (cell_at d a (i - 1)) (cell_at d b (i - 1)) \<and>
    cell_lt (cell_at d a i) (cell_at d b i)"
  by (simp add: col_def lookup_def cell_at_def qtpylib_crossed_below_def split: option.splits)

lemma result_flag_exit:
  assumes "\<not> flag_set d name i"
  shows "result_flag (activate (exit_conditions self d) name d) name i \<longleftrightarrow>
    0 < i \<and>
    cell_ge (cell_at d ''trend_close_5m'' (i - 1)) (cell_at d (sell_trend_indicator self) (i - 1)) \<and>
    cell_lt (cell_at d ''trend_close_5m'' i) (cell_at d (sell_trend_indicator self) i)"
proof -
  let ?cs = "exit_conditions self d"
  have ne: "?cs \<noteq> []" by (simp add: exit_conditions_def)
  have "result_flag (activate ?cs name d) name i \<longleftrightarrow> (\<forall>r\<in>set ?cs. holds_at i r)"
    using assms holds_at_fresh [of ?cs i] by (auto simp: result_flag_activate [OF ne])
  then show ?thesis
    by (simp add: exit_conditions_def holds_at_exit)
qed

subsection \<open>The list of entry conditions grows with the levels\<close>

lemma above_senkou_mono:
  assumes "L \<le> L'"
  shows "set (above_senkou_conditions L d) \<subseteq> set (above_senkou_conditions L' d)"
  using assms unfolding above_senkou_conditions_def
  by (simp only: set_append) (intro Un_mono; auto)

lemma bullish_mono:
  assumes "L \<le> L'"
  shows "set (bullish_conditions L d) \<subseteq> set (bullish_conditions L' d)"
  using assms unfolding bullish_conditions_def
  by (simp only: set_append) (intro Un_mono; auto)

lemma fan_magnitude_mono:
  assumes "S \<le> S'"
  shows "set (fan_magnitude_conditions g S d) \<subseteq> set (fan_magnitude_conditions g S' d)"
  using assms by (auto simp: fan_magnitude_conditions_def range_list_def)

lemma entry_conditions_mono:
  assumes "buy_trend_above_senkou_level p \<le> buy_trend_above_senkou_level p'"
    and "buy_trend_bullish_level p \<le> buy_trend_bullish_level p'"
    and "buy_fan_magnitude_shift_value p \<le> buy_fan_magnitude_shift_value p'"
    and "buy_min_fan_magnitude_gain p = buy_min_fan_magnitude_gain p'"
  shows "set (entry_conditions p d) \<subseteq> set (entry_conditions p' d)"
  unfolding entry_conditions_def set_append assms(4)
  by (intro Un_mono above_senkou_mono bullish_mono fan_magnitude_mono assms)

lemma result_flag_activate_mono:
  assumes "set cs \<subseteq> set cs'" and "cs \<noteq> []"
    and "result_flag (activate cs' name d) name i"
  shows "result_flag (activate cs name d) name i"
proof -
  from assms(1,2) have "cs' \<noteq> []" by auto
  then have "result_flag (activate cs' name d) name i \<longleftrightarrow>
      (\<forall>r\<in>set cs'. \<exists>m. r = Inr m) \<and>
      ((\<forall>r\<in>set cs'. holds_at i r) \<or> flag_set d name i)"
    by (rule result_flag_activate)
  with assms(1,3) have "(\<forall>r\<in>set cs. \<exists>m. r = Inr m) \<and>
      ((\<forall>r\<in>set cs. holds_at i r) \<or> flag_set d name i)"
    by blast
  moreover from assms(2) have "result_flag (activate cs name d) name i \<longleftrightarrow>
      (\<forall>r\<in>set cs. \<exists>m. r = Inr m) \<and>
      ((\<forall>r\<in>set cs. holds_at i r) \<or> flag_set d name i)"
    by (rule result_flag_activate)
  ultimately show ?thesis by blast
qed

lemma entry_flag_mono:
  assumes "buy_trend_above_senkou_level p \<le> buy_trend_above_senkou_level p'"
    and "buy_trend_bullish_level p \<le> buy_trend_bullish_level p'"
    and "buy_fan_magnitude_shift_value p \<le> buy_fan_magnitude_shift_value p'"
    and "buy_min_fan_magnitude_gain p = buy_min_fan_magnitude_gain p'"
    and "result_flag (activate (entry_conditions p' d) name d) name i"
  shows "result_flag (activate (entry_conditions p d) name d) name i"
  using entry_conditions_mono [OF assms(1-4)] entry_conditions_nonempty assms(5)
  by (rule result_flag_activate_mono)

lemma result_flag_entry_eval:
  "result_flag (activate (entry_conditions self d) name d) name i \<longleftrightarrow>
    (\<forall>r\<in>set (above_senkou_conditions (buy_trend_above_senkou_level self) d).
        (\<exists>m. r = Inr m) \<and> (holds_at i r \<or> flag_set d name i)) \<and>
    (\<forall>r\<in>set (bullish_conditions (buy_trend_bullish_level self) d).
        (\<exists>m. r = Inr m) \<and> (holds_at i r \<or> flag_set d name i)) \<and>
    (\<forall>r\<in>set (fan_magnitude_conditions (buy_min_fan_magnitude_gain self)
          (buy_fan_magnitude_shift_value self) d).
        (\<exists>m. r = Inr m) \<and> (holds_at i r \<or> flag_set d name i))"
  by (subst result_flag_entry) (auto simp: entry_conditions_def)

lemma col_gt_returns:
  "(\<exists>m. col_gt d a b = Inr m) \<longleftrightarrow> cols d a \<noteq> None \<and> cols d b \<noteq> None"
  by (auto simp: col_gt_def col_def lookup_def split: option.splits)

lemma mapE_col_returns: "(\<exists>m. mapE f (col d a) = Inr m) \<longleftrightarrow> cols d a \<noteq> None"
  by (auto simp: mapE_def col_def lookup_def split: option.splits)

lemma holds_at_rising:
  "holds_at i (mapE (\<lambda>f. series_lt (shift k f) f) (col d a)) \<longleftrightarrow>
     k \<le> i \<and> cell_lt (cell_at d a (i - k)) (cell_at d a i)"
  by (auto simp: holds_at_mapE_col cell_at_def series_lt_def shift_def split: option.splits)

lemma full_frame_cols:
  "cols full_frame ''trend_close_5m'' \<noteq> None" "cols full_frame ''trend_close_15m'' \<noteq> None"
  "cols full_frame ''trend_open_5m'' \<noteq> None" "cols full_frame ''trend_open_15m'' \<noteq> None"
  "cols full_frame ''senkou_a'' \<noteq> None" "cols full_frame ''senkou_b'' \<noteq> None"
  "cols full_frame ''fan_magnitude'' \<noteq> None" "cols full_frame ''fan_magnitude_gain'' \<noteq> None"
  by (simp_all add: full_frame_def)

lemmas entry_eval = result_flag_entry_eval above_senkou_conditions_def bullish_conditions_def
  fan_magnitude_conditions_def range_list_def holds_at_col_gt holds_at_gain holds_at_fan
  holds_at_rising col_gt_returns mapE_col_returns full_frame_cols full_frame_cells
  scenario_params_def

lemma assigns_loc_set: "assigns_one_where d (loc_set m name (Num 1) d) name m"
  by (simp add: assigns_one_where_def cols_loc_set nrows_loc_set cell_at_loc_set)

lemma result_assigns_activate:
  assumes "conds \<noteq> []"
  shows "result_assigns (activate conds name d) d name (\<lambda>i. \<forall>r\<in>set conds. holds_at i r)"
proof (cases "activate conds name d")
  case (Inl e)
  then show ?thesis by (simp add: result_assigns_def)
next
  case (Inr d')
  from activate_Inr [OF Inr assms] Inr show ?thesis
    by (simp add: result_assigns_def assigns_loc_set)
qed

lemma result_assigns_cell:
  assumes "result_assigns r d name cond" and "r = Inr d'"
  shows "result_cell r name i = (if cond i then Num 1 else cell_at d name i)"
  using assms by (simp add: result_assigns_def assigns_one_where_def result_cell_def)

lemma full_frame_grid_cols:
  "cols full_frame ''close'' = Some (series_of [Num 10, Num 10])"
  "cols full_frame ''volume'' = Some (series_of [Num 100, Num 100])"
  "cols full_frame ''bb_lowerband'' = Some (series_of [Num 10, Num 10])"
  "cols full_frame ''bb_upperband'' = Some (series_of [Num 12, Num 12])"
  "cols full_frame ''rsi'' = Some (series_of [Num 50, Num 50])"
  "cols full_frame ''sma_20'' = Some (series_of [Num 11, Num 11])"
  "cols full_frame ''volume_sma'' = Some (series_of [Num 50, Num 50])"
  by (simp_all add: full_frame_def)

subsection \<open>Sequences of assignments\<close>

lemma steps_append: "steps (xs @ ys) d = bindE (steps xs d) (steps ys)"
proof (induction xs arbitrary: d)
  case Nil
  show ?case by simp
next
  case (Cons f fs)
  show ?case by (cases "f d") (simp_all add: Cons.IH)
qed

lemma assign_Inr_iff:
  "assign n rhs d = Inr d' \<longleftrightarrow> (\<exists>s. rhs d = Inr s \<and> d' = set_col n s d)"
  by (auto simp: assign_def bindE_Inr_iff)

lemma with_local_Inr_iff:
  "with_local rhs body d = Inr d' \<longleftrightarrow> (\<exists>v. rhs d = Inr v \<and> body v d = Inr d')"
  by (simp add: with_local_def bindE_Inr_iff)

lemma assigns_within_assign: "n \<in> set names \<Longrightarrow> assigns_within names (assign n rhs)"
  by (auto simp: assigns_within_def assign_Inr_iff set_col_def)

lemma assigns_within_steps:
  assumes "\<forall>f\<in>set fs. assigns_within names f"
  shows "assigns_within names (steps fs)"
  using assms
proof (induction fs)
  case Nil
  show ?case by (simp add: assigns_within_def)
next
  case (Cons f fs)
  then have f: "assigns_within names f" and fs: "assigns_within names (steps fs)"
    by simp_all
  show ?case
    unfolding assigns_within_def
  proof (intro allI impI)
    fix d d' assume "steps (f # fs) d = Inr d'"
    then obtain d1 where "f d = Inr d1" and "steps fs d1 = Inr d'"
      by (auto simp: bindE_Inr_iff)
    with f fs show "nrows d' = nrows d \<and> (\<forall>n. n \<notin> set names \<longrightarrow> cols d' n = cols d n)"
      unfolding assigns_within_def by metis
  qed
qed

lemma assigns_within_with_local:
  assumes "\<And>v. assigns_within names (body v)"
  shows "assigns_within names (with_local rhs body)"
  using assms unfolding assigns_within_def with_local_Inr_iff by blast

lemma assigns_within_mono:
  "assigns_within names f \<Longrightarrow> set names \<subseteq> set names' \<Longrightarrow> assigns_within names' f"
  unfolding assigns_within_def by blast

lemma assigns_withinD:
  "assigns_within names f \<Longrightarrow> f d = Inr d' \<Longrightarrow> n \<notin> set names \<Longrightarrow> cols d' n = cols d n"
  unfolding assigns_within_def by blast

lemma assigns_within_nrows:
  "assigns_within names f \<Longrightarrow> f d = Inr d' \<Longrightarrow> nrows d' = nrows d"
  unfolding assigns_within_def by blast

lemmas assigns_within_intros = assigns_within_steps assigns_within_with_local
  assigns_within_assign

lemma grid_assigns:
  "assigns_within grid_indicator_names (\<lambda>d. GridStrategy_populate_indicators lib self d md)"
  unfolding GridStrategy_populate_indicators_def
  by (rule assigns_within_steps)
     (auto simp: grid_indicator_names_def intro!: assigns_within_intros)

lemma grid_v2_assigns:
  "assigns_within grid_v2_indicator_names
     (\<lambda>d. GridStrategyV2_populate_indicators lib self d md)"
  unfolding GridStrategyV2_populate_indicators_def
  by (rule assigns_within_steps)
     (auto simp: grid_v2_indicator_names_def intro!: assigns_within_intros)

lemma heikinashi_assigns: "assigns_within [''open'', ''high'', ''low''] (steps heikinashi_steps)"
  unfolding heikinashi_steps_def
  by (rule assigns_within_steps) (auto intro!: assigns_within_intros)

lemma trend_assigns: "assigns_within trend_names (steps (trend_steps lib))"
  unfolding trend_steps_def
  by (rule assigns_within_steps) (auto simp: trend_names_def intro!: assigns_within_intros)

lemma fan_assigns: "assigns_within fan_names (steps fan_steps)"
  unfolding fan_steps_def
  by (rule assigns_within_steps) (auto simp: fan_names_def intro!: assigns_within_intros)

lemma cloud_assigns: "assigns_within cloud_names (steps (cloud_steps lib))"
  unfolding cloud_steps_def
  by (rule assigns_within_steps) (auto simp: cloud_names_def intro!: assigns_within_intros)

subsection \<open>The stages of the IchiV1 indicators\<close>

lemma col_set_col:
  "col (set_col n s d) m = (if m = n then Inr s else col d m)"
  by (simp add: col_def lookup_def set_col_def)

lemma cols_set_col: "cols (set_col n s d) = (cols d)(n \<mapsto> s)"
  by (simp add: set_col_def)

lemma nrows_set_col: "nrows (set_col n s d) = nrows d"
  by (simp add: set_col_def)

lemma ichi_stages:
  assumes "IchiV1_populate_indicators lib d = Inr d'"
  obtains d1 d2 d3 where "steps heikinashi_steps d = Inr d1"
    and "steps (trend_steps lib) d1 = Inr d2"
    and "steps fan_steps d2 = Inr d3"
    and "steps (cloud_steps lib) d3 = Inr d'"
  using assms unfolding IchiV1_populate_indicators_def steps_append bindE_Inr_iff by blast

lemma heikinashi_steps_Inr:
  assumes "steps heikinashi_steps d = Inr d1"
  shows "\<exists>opn high low cls.
    cols d ''open'' = Some opn \<and> cols d ''high'' = Some high \<and>
    cols d ''low'' = Some low \<and> cols d ''close'' = Some cls \<and>
    d1 = set_col ''low'' (ha_low low opn cls)
           (set_col ''high'' (ha_high high opn cls) (set_col ''open'' (ha_open opn cls) d))"
  using assms
  by (auto simp: heikinashi_steps_def with_local_Inr_iff qtpylib_heikinashi_def bindE_Inr_iff
      col_Inr_iff assign_Inr_iff lookup_Inr_iff)

lemma heikinashi_steps_returns:
  assumes "cols d ''open'' = Some opn" "cols d ''high'' = Some high"
    "cols d ''low'' = Some low" "cols d ''close'' = Some cls"
  shows "steps heikinashi_steps d =
     Inr (set_col ''low'' (ha_low low opn cls)
           (set_col ''high'' (ha_high high opn cls) (set_col ''open'' (ha_open opn cls) d)))"
  using assms
  by (simp add: heikinashi_steps_def with_local_def qtpylib_heikinashi_def col_def lookup_def
      assign_def)

lemma trend_steps_eval:
  assumes "cols d ''close'' = Some cls" "cols d ''open'' = Some opn"
  shows "\<exists>d2. steps (trend_steps lib) d = Inr d2 \<and>
     cols d2 ''trend_close_5m'' = Some cls \<and>
     cols d2 ''trend_close_30m'' = Some (ta_EMA lib (SR cls) (Some 6)) \<and>
     cols d2 ''trend_close_1h'' = Some (ta_EMA lib (SR cls) (Some 12)) \<and>
     cols d2 ''trend_close_8h'' = Some (ta_EMA lib (SR cls) (Some 96)) \<and>
     cols d2 ''trend_open_5m'' = Some opn"
  using assms
  by (simp add: trend_steps_def assign_def ema_of_def mapE_def col_set_col cols_set_col
      col_def [of d] lookup_def)

lemma fan_steps_Inr:
  assumes "steps fan_steps d2 = Inr d3"
  shows "\<exists>a b. cols d2 ''trend_close_1h'' = Some a \<and> cols d2 ''trend_close_8h'' = Some b \<and>
    d3 = set_col ''fan_magnitude_gain'' (series_div (series_div a b) (shift 1 (series_div a b)))
           (set_col ''fan_magnitude'' (series_div a b) d2)"
  using assms
  by (auto simp: fan_steps_def bindE_Inr_iff col_Inr_iff assign_Inr_iff cols_set_col)

lemma fan_steps_returns:
  assumes "cols d2 ''trend_close_1h'' = Some a" "cols d2 ''trend_close_8h'' = Some b"
  shows "steps fan_steps d2 =
     Inr (set_col ''fan_magnitude_gain'' (series_div (series_div a b) (shift 1 (series_div a b)))
           (set_col ''fan_magnitude'' (series_div a b) d2))"
  using assms
  by (simp add: fan_steps_def assign_def col_set_col col_def [of d2] lookup_def)

lemma cloud_steps_returns:
  assumes "\<forall>k\<in>set ichimoku_keys. ftt_ichimoku lib d 20 60 120 30 k \<noteq> None"
  shows "\<exists>d'. steps (cloud_steps lib) d = Inr d'"
  using assms
  by (auto simp: cloud_steps_def with_local_def assign_def lookup_def ichimoku_keys_def)

lemma cell_arith_NaN_right [simp]:
  "cell_div a NaN = NaN" "cell_add a NaN = NaN" "cell_mul a NaN = NaN"
  by (cases a; simp)+

lemma ichi_indicators_Inr:
  assumes "IchiV1_populate_indicators lib d = Inr d'"
  shows "\<exists>opn high low cls.
    cols d ''open'' = Some opn \<and> cols d ''high'' = Some high \<and>
    cols d ''low'' = Some low \<and> cols d ''close'' = Some cls \<and>
    cols d' ''open'' = Some (ha_open opn cls) \<and>
    cols d' ''high'' = Some (ha_high high opn cls) \<and>
    cols d' ''low'' = Some (ha_low low opn cls) \<and>
    cols d' ''close'' = Some cls \<and>
    cols d' ''volume'' = cols d ''volume'' \<and>
    nrows d' = nrows d \<and>
    (\<forall>n. n \<notin> set ichi_indicator_names \<longrightarrow> cols d' n = cols d n)"
proof -
  from assms obtain d1 d2 d3 where s1: "steps heikinashi_steps d = Inr d1"
    and s2: "steps (trend_steps lib) d1 = Inr d2"
    and s3: "steps fan_steps d2 = Inr d3"
    and s4: "steps (cloud_steps lib) d3 = Inr d'"
    by (rule ichi_stages)
  from heikinashi_steps_Inr [OF s1] obtain opn high low cls where
    inp: "cols d ''open'' = Some opn" "cols d ''high'' = Some high"
      "cols d ''low'' = Some low" "cols d ''close'' = Some cls"
    and d1: "d1 = set_col ''low'' (ha_low low opn cls)
           (set_col ''high'' (ha_high high opn cls) (set_col ''open'' (ha_open opn cls) d))"
    by blast
  have keep: "cols d' n = cols d1 n" if "n \<notin> set (trend_names @ fan_names @ cloud_names)" for n
  proof -
    from that have "cols d2 n = cols d1 n" "cols d3 n = cols d2 n" "cols d' n = cols d3 n"
      using assigns_withinD [OF trend_assigns s2, of n]
        assigns_withinD [OF fan_assigns s3, of n]
        assigns_withinD [OF cloud_assigns s4, of n]
      by simp_all
    then show ?thesis by simp
  qed
  have rows: "nrows d' = nrows d"
    using assigns_within_nrows [OF heikinashi_assigns s1]
      assigns_within_nrows [OF trend_assigns s2]
      assigns_within_nrows [OF fan_assigns s3]
      assigns_within_nrows [OF cloud_assigns s4]
    by simp
  have "cols d' ''open'' = cols d1 ''open''" "cols d' ''high'' = cols d1 ''high''"
    "cols d' ''low'' = cols d1 ''low''" "cols d' ''close'' = cols d1 ''close''"
    "cols d' ''volume'' = cols d1 ''volume''"
    by (rule keep, simp add: trend_names_def fan_names_def cloud_names_def)+
  moreover have "cols d' n = cols d n" if "n \<notin> set ichi_indicator_names" for n
  proof -
    from that have "n \<notin> set (trend_names @ fan_names @ cloud_names)"
      and "n \<notin> set [''open'', ''high'', ''low'']"
      by (simp_all add: ichi_indicator_names_def)
    then show ?thesis
      using keep [of n] assigns_withinD [OF heikinashi_assigns s1, of n] by simp
  qed
  ultimately show ?thesis
    using inp rows by (simp add: d1 cols_set_col)
qed

lemma ichi_fan_Inr:
  assumes "IchiV1_populate_indicators lib d = Inr d'"
  shows "\<exists>a b.
    cols d' ''trend_close_1h'' = Some a \<and> cols d' ''trend_close_8h'' = Some b \<and>
    cols d' ''fan_magnitude'' = Some (series_div a b) \<and>
    cols d' ''fan_magnitude_gain'' = Some (series_div (series_div a b) (shift 1 (series_div a b)))"
proof -
  from assms obtain d1 d2 d3 where "steps heikinashi_steps d = Inr d1"
    and "steps (trend_steps lib) d1 = Inr d2"
    and s3: "steps fan_steps d2 = Inr d3"
    and s4: "steps (cloud_steps lib) d3 = Inr d'"
    by (rule ichi_stages)
  from fan_steps_Inr [OF s3] obtain a b where
    ab: "cols d2 ''trend_close_1h'' = Some a" "cols d2 ''trend_close_8h'' = Some b"
    and d3: "d3 = set_col ''fan_magnitude_gain''
        (series_div (series_div a b) (shift 1 (series_div a b)))
        (set_col ''fan_magnitude'' (series_div a b) d2)"
    by blast
  have "cols d' ''trend_close_1h'' = cols d3 ''trend_close_1h''"
    "cols d' ''trend_close_8h'' = cols d3 ''trend_close_8h''"
    "cols d' ''fan_magnitude'' = cols d3 ''fan_magnitude''"
    "cols d' ''fan_magnitude_gain'' = cols d3 ''fan_magnitude_gain''"
    by (rule assigns_withinD [OF cloud_assigns s4], simp add: cloud_names_def)+
  with ab show ?thesis
    by (simp add: d3 cols_set_col)
qed

lemma ichi_indicators_eval:
  assumes "cols d ''open'' = Some opn" "cols d ''high'' = Some high"
    "cols d ''low'' = Some low" "cols d ''close'' = Some cls"
    and keys: "\<And>d. \<forall>k\<in>set ichimoku_keys. ftt_ichimoku lib d 20 60 120 30 k \<noteq> None"
  shows "\<exists>d'. IchiV1_populate_indicators lib d = Inr d' \<and>
    cols d' ''trend_close_5m'' = Some cls \<and>
    cols d' ''trend_close_30m'' = Some (ta_EMA lib (SR cls) (Some 6)) \<and>
    cols d' ''trend_close_1h'' = Some (ta_EMA lib (SR cls) (Some 12)) \<and>
    cols d' ''trend_close_8h'' = Some (ta_EMA lib (SR cls) (Some 96))"
proof -
  let ?d1 = "set_col ''low'' (ha_low low opn cls)
           (set_col ''high'' (ha_high high opn cls) (set_col ''open'' (ha_open opn cls) d))"
  have s1: "steps heikinashi_steps d = Inr ?d1"
    using assms(1-4) by (rule heikinashi_steps_returns)
  have "cols ?d1 ''close'' = Some cls" "cols ?d1 ''open'' = Some (ha_open opn cls)"
    using assms(4) by (simp_all add: cols_set_col)
  from trend_steps_eval [OF this, of lib] obtain d2 where
    s2: "steps (trend_steps lib) ?d1 = Inr d2"
    and c2: "cols d2 ''trend_close_5m'' = Some cls"
      "cols d2 ''trend_close_30m'' = Some (ta_EMA lib (SR cls) (Some 6))"
      "cols d2 ''trend_close_1h'' = Some (ta_EMA lib (SR cls) (Some 12))"
      "cols d2 ''trend_close_8h'' = Some (ta_EMA lib (SR cls) (Some 96))"
    by blast
  from fan_steps_returns [OF c2(3,4)] obtain d3 where s3: "steps fan_steps d2 = Inr d3"
    by blast
  from cloud_steps_returns [OF keys] obtain d' where s4: "steps (cloud_steps lib) d3 = Inr d'"
    by blast
  have keep: "cols d' n = cols d2 n" if "n \<notin> set (fan_names @ cloud_names)" for n
    using that assigns_withinD [OF fan_assigns s3, of n]
      assigns_withinD [OF cloud_assigns s4, of n] by simp
  have "cols d' ''trend_close_5m'' = cols d2 ''trend_close_5m''"
    "cols d' ''trend_close_30m'' = cols d2 ''trend_close_30m''"
    "cols d' ''trend_close_1h'' = cols d2 ''trend_close_1h''"
    "cols d' ''trend_close_8h'' = cols d2 ''trend_close_8h''"
    by (rule keep, simp add: fan_names_def cloud_names_def)+
  moreover have "IchiV1_populate_indicators lib d = Inr d'"
    by (simp add: IchiV1_populate_indicators_def steps_append s1 s2 s3 s4)
  ultimately show ?thesis using c2 by simp
qed

lemma flat_lib_keys: "\<forall>k\<in>set ichimoku_keys. ftt_ichimoku flat_lib d 20 60 120 30 k \<noteq> None"
  by (simp add: flat_lib_def ichimoku_keys_def)

lemma flat_lib_EMA: "ta_EMA flat_lib (SR s) (Some n) = (\<lambda>i. if i + 1 < n then NaN else s i)"
  by (rule ext) (simp add: flat_lib_def windowed_def price_of_def)

lemma two_candles_cols:
  "cols two_candles ''open'' = Some (series_of [Num 1, Num 4])"
  "cols two_candles ''high'' = Some (series_of [Num 3, Num 6])"
  "cols two_candles ''low'' = Some (series_of [Num 1, Num 2])"
  "cols two_candles ''close'' = Some (series_of [Num 3, Num 5])"
  "cols two_candles ''volume'' = Some (series_of [Num 5, Num 5])"
  by (simp_all add: two_candles_def)

lemma flat_candles_cols:
  "cols (flat_candles n) ''open'' = Some (scalar 100)"
  "cols (flat_candles n) ''high'' = Some (scalar 100)"
  "cols (flat_candles n) ''low'' = Some (scalar 100)"
  "cols (flat_candles n) ''close'' = Some (scalar 100)"
  "cols (flat_candles n) ''volume'' = Some (scalar 100)"
  "cols (flat_candles n) ''enter_long'' = None"
  "cols (flat_candles n) ''exit_long'' = None"
  by (simp_all add: flat_candles_def)

lemma result_cell_Inr [simp]: "result_cell (Inr d) name i = cell_at d name i"
  by (simp add: result_cell_def)

subsection \<open>Signals at rows with undefined indicators\<close>

lemma result_flag_Inl [simp]: "result_flag (Inl e) name i = False"
  by (simp add: result_flag_def)

lemma result_flag_Inr [simp]: "result_flag (Inr d) name i = flag_set d name i"
  by (simp add: result_flag_def)

lemma result_cell_Inl [simp]: "result_cell (Inl e) name i = NaN"
  by (simp add: result_cell_def)

lemma cell_at_loc_set_unselected:
  "\<not> m i \<Longrightarrow> cell_at (loc_set m name v d) n i = cell_at d n i"
  by (simp add: cell_at_loc_set)

lemma grid_signals_unflagged:
  assumes "\<not> flag_set d ''enter_long'' i" "\<not> flag_set d ''exit_long'' i"
    and "cell_at d ''bb_lowerband'' i = NaN" "cell_at d ''bb_upperband'' i = NaN"
    and "cell_at d ''rsi'' i = NaN" "cell_at d ''sma_20'' i = NaN"
  shows "\<not> result_flag (bindE (GridStrategy_populate_entry_trend d md)
            (\<lambda>d. GridStrategy_populate_exit_trend d md)) ''enter_long'' i \<and>
         \<not> result_flag (bindE (GridStrategy_populate_entry_trend d md)
            (\<lambda>d. GridStrategy_populate_exit_trend d md)) ''exit_long'' i"
proof (cases "GridStrategy_populate_entry_trend d md")
  case (Inl e)
  then show ?thesis by simp
next
  case (Inr d2)
  note d2 = GridStrategy_entry_Inr [OF Inr]
  have same: "cell_at d2 n i = cell_at d n i" for n
    by (subst d2, rule cell_at_loc_set_unselected) (simp add: assms)
  show ?thesis
  proof (cases "GridStrategy_populate_exit_trend d2 md")
    case (Inl e)
    with Inr show ?thesis by simp
  next
    case (Inr d3)
    note d3 = GridStrategy_exit_Inr [OF Inr]
    have "cell_at d3 n i = cell_at d n i" for n
      by (subst d3, subst cell_at_loc_set_unselected) (simp_all add: same assms)
    then have "\<not> flag_set d3 ''enter_long'' i" "\<not> flag_set d3 ''exit_long'' i"
      using assms(1,2) by (simp_all add: flag_set_def)
    with \<open>GridStrategy_populate_entry_trend d md = Inr d2\<close> Inr show ?thesis by simp
  qed
qed

lemma grid_v2_signals_unflagged:
  assumes "\<not> flag_set d ''enter_long'' i" "\<not> flag_set d ''exit_long'' i"
    and "cell_at d ''bb_lowerband'' i = NaN" "cell_at d ''rsi'' i = NaN"
  shows "\<not> result_flag (bindE (GridStrategyV2_populate_entry_trend d md)
            (\<lambda>d. GridStrategyV2_populate_exit_trend d md)) ''enter_long'' i \<and>
         \<not> result_flag (bindE (GridStrategyV2_populate_entry_trend d md)
            (\<lambda>d. GridStrategyV2_populate_exit_trend d md)) ''exit_long'' i"
proof (cases "GridStrategyV2_populate_entry_trend d md")
  case (Inl e)
  then show ?thesis by simp
next
  case (Inr d2)
  note d2 = GridStrategyV2_entry_Inr [OF Inr]
  have same: "cell_at d2 n i = cell_at d n i" for n
    by (subst d2, rule cell_at_loc_set_unselected) (simp add: assms)
  show ?thesis
  proof (cases "GridStrategyV2_populate_exit_trend d2 md")
    case (Inl e)
    with Inr show ?thesis by simp
  next
    case (Inr d3)
    note d3 = GridStrategyV2_exit_Inr [OF Inr]
    have "cell_at d3 n i = cell_at d n i" for n
      by (subst d3, subst cell_at_loc_set_unselected) (simp_all add: same assms)
    then have "\<not> flag_set d3 ''enter_long'' i" "\<not> flag_set d3 ''exit_long'' i"
      using assms(1,2) by (simp_all add: flag_set_def)
    with \<open>GridStrategyV2_populate_entry_trend d md = Inr d2\<close> Inr show ?thesis by simp
  qed
qed

lemma fan_condition_mem:
  "mapE (\<lambda>f. series_gt f (scalar 1)) (col d ''fan_magnitude'') \<in> set (entry_conditions p d)"
  by (simp add: entry_conditions_def fan_magnitude_conditions_def)

lemma ichi_signals_unflagged:
  assumes "\<not> flag_set d ''enter_long'' i" "\<not> flag_set d ''exit_long'' i"
    and "cell_at d ''fan_magnitude'' i = NaN"
    and "cell_at d (sell_trend_indicator p) i = NaN"
  shows "\<not> result_flag (bindE (activate (entry_conditions p d) ''enter_long'' d)
            (\<lambda>d. activate (exit_conditions p d) ''exit_long'' d)) ''enter_long'' i \<and>
         \<not> result_flag (bindE (activate (entry_conditions p d) ''enter_long'' d)
            (\<lambda>d. activate (exit_conditions p d) ''exit_long'' d)) ''exit_long'' i"
proof (cases "activate (entry_conditions p d) ''enter_long'' d")
  case (Inl e)
  then show ?thesis by simp
next
  case (Inr d2)
  let ?M = "\<lambda>i. \<forall>r\<in>set (entry_conditions p d). holds_at i r"
  have d2: "d2 = loc_set ?M ''enter_long'' (Num 1) d"
    using Inr entry_conditions_nonempty by (rule activate_Inr)
  have "\<not> holds_at i (mapE (\<lambda>f. series_gt f (scalar 1)) (col d ''fan_magnitude''))"
    by (simp add: holds_at_fan assms(3))
  with fan_condition_mem [of d p] have M: "\<not> ?M i" by blast
  have same: "cell_at d2 n i = cell_at d n i" for n
    unfolding d2 using M by (rule cell_at_loc_set_unselected)
  show ?thesis
  proof (cases "activate (exit_conditions p d2) ''exit_long'' d2")
    case (Inl e)
    with Inr show ?thesis by simp
  next
    case (Inr d3)
    let ?X = "\<lambda>i. \<forall>r\<in>set (exit_conditions p d2). holds_at i r"
    have ne: "exit_conditions p d2 \<noteq> []" by (simp add: exit_conditions_def)
    have d3: "d3 = loc_set ?X ''exit_long'' (Num 1) d2"
      using Inr ne by (rule activate_Inr)
    have X: "\<not> ?X i"
      by (simp add: exit_conditions_def holds_at_exit same assms(4))
    have "cell_at d3 n i = cell_at d n i" for n
      unfolding d3 using X same by (simp add: cell_at_loc_set_unselected)
    then have "\<not> flag_set d3 ''enter_long'' i" "\<not> flag_set d3 ''exit_long'' i"
      using assms(1,2) by (simp_all add: flag_set_def)
    with \<open>activate (entry_conditions p d) ''enter_long'' d = Inr d2\<close> Inr show ?thesis by simp
  qed
qed

lemma ichi_assigns: "assigns_within ichi_indicator_names (IchiV1_populate_indicators lib)"
  unfolding assigns_within_def
  using ichi_indicators_Inr by blast

lemma grid_run_unflagged:
  assumes "\<not> flag_set candles ''enter_long'' i" and "\<not> flag_set candles ''exit_long'' i"
    and "result_cell (GridStrategy_populate_indicators lib self candles metadata)
       ''bb_lowerband'' i = NaN"
    and "result_cell (GridStrategy_populate_indicators lib self candles metadata)
       ''bb_upperband'' i = NaN"
    and "result_cell (GridStrategy_populate_indicators lib self candles metadata) ''rsi'' i = NaN"
    and "result_cell (GridStrategy_populate_indicators lib self candles metadata)
       ''sma_20'' i = NaN"
  shows "\<not> result_flag (run_stages (\<lambda>d. GridStrategy_populate_indicators lib self d metadata)
          (\<lambda>d. GridStrategy_populate_entry_trend d metadata)
          (\<lambda>d. GridStrategy_populate_exit_trend d metadata) candles) ''enter_long'' i \<and>
     \<not> result_flag (run_stages (\<lambda>d. GridStrategy_populate_indicators lib self d metadata)
          (\<lambda>d. GridStrategy_populate_entry_trend d metadata)
          (\<lambda>d. GridStrategy_populate_exit_trend d metadata) candles) ''exit_long'' i"
proof (cases "GridStrategy_populate_indicators lib self candles metadata")
  case (Inl e)
  then show ?thesis by (simp add: run_stages_def)
next
  case (Inr d)
  have "cols d ''enter_long'' = cols candles ''enter_long''"
    "cols d ''exit_long'' = cols candles ''exit_long''"
    by (rule assigns_withinD [OF grid_assigns Inr], simp add: grid_indicator_names_def)+
  with assms(1,2) have f: "\<not> flag_set d ''enter_long'' i" "\<not> flag_set d ''exit_long'' i"
    by (simp_all add: flag_set_def cell_at_def)
  from assms(3-6) have n: "cell_at d ''bb_lowerband'' i = NaN" "cell_at d ''bb_upperband'' i = NaN"
    "cell_at d ''rsi'' i = NaN" "cell_at d ''sma_20'' i = NaN"
    by (simp_all add: Inr)
  have eq: "run_stages (\<lambda>d. GridStrategy_populate_indicators lib self d metadata)
          (\<lambda>d. GridStrategy_populate_entry_trend d metadata)
          (\<lambda>d. GridStrategy_populate_exit_trend d metadata) candles =
        bindE (GridStrategy_populate_entry_trend d metadata)
          (\<lambda>d. GridStrategy_populate_exit_trend d metadata)"
    by (simp add: run_stages_def Inr)
  show ?thesis
    unfolding eq by (rule grid_signals_unflagged [OF f n])
qed

lemma grid_v2_run_unflagged:
  assumes "\<not> flag_set candles ''enter_long'' i" and "\<not> flag_set candles ''exit_long'' i"
    and "result_cell (GridStrategyV2_populate_indicators lib self candles metadata)
       ''bb_lowerband'' i = NaN"
    and "result_cell (GridStrategyV2_populate_indicators lib self candles metadata) ''rsi'' i = NaN"
  shows "\<not> result_flag (run_stages (\<lambda>d. GridStrategyV2_populate_indicators lib self d metadata)
          (\<lambda>d. GridStrategyV2_populate_entry_trend d metadata)
          (\<lambda>d. GridStrategyV2_populate_exit_trend d metadata) candles) ''enter_long'' i \<and>
     \<not> result_flag (run_stages (\<lambda>d. GridStrategyV2_populate_indicators lib self d metadata)
          (\<lambda>d. GridStrategyV2_populate_entry_trend d metadata)
          (\<lambda>d. GridStrategyV2_populate_exit_trend d metadata) candles) ''exit_long'' i"
proof (cases "GridStrategyV2_populate_indicators lib self candles metadata")
  case (Inl e)
  then show ?thesis by (simp add: run_stages_def)
next
  case (Inr d)
  have "cols d ''enter_long'' = cols candles ''enter_long''"
    "cols d ''exit_long'' = cols candles ''exit_long''"
    by (rule assigns_withinD [OF grid_v2_assigns Inr], simp add: grid_v2_indicator_names_def)+
  with assms(1,2) have f: "\<not> flag_set d ''enter_long'' i" "\<not> flag_set d ''exit_long'' i"
    by (simp_all add: flag_set_def cell_at_def)
  from assms(3,4) have n: "cell_at d ''bb_lowerband'' i = NaN" "cell_at d ''rsi'' i = NaN"
    by (simp_all add: Inr)
  have eq: "run_stages (\<lambda>d. GridStrategyV2_populate_indicators lib self d metadata)
          (\<lambda>d. GridStrategyV2_populate_entry_trend d metadata)
          (\<lambda>d. GridStrategyV2_populate_exit_trend d metadata) candles =
        bindE (GridStrategyV2_populate_entry_trend d metadata)
          (\<lambda>d. GridStrategyV2_populate_exit_trend d metadata)"
    by (simp add: run_stages_def Inr)
  show ?thesis
    unfolding eq by (rule grid_v2_signals_unflagged [OF f n])
qed

lemma ichi_run_unflagged:
  assumes "\<not> flag_set candles ''enter_long'' i" and "\<not> flag_set candles ''exit_long'' i"
    and "result_cell (IchiV1_populate_indicators lib candles) ''fan_magnitude'' i = NaN"
    and "result_cell (IchiV1_populate_indicators lib candles) (sell_trend_indicator params) i = NaN"
  shows "\<not> result_flag (run_stages (IchiV1_populate_indicators lib)
          (\<lambda>d. activate (entry_conditions params d) ''enter_long'' d)
          (\<lambda>d. activate (exit_conditions params d) ''exit_long'' d) candles) ''enter_long'' i \<and>
     \<not> result_flag (run_stages (IchiV1_populate_indicators lib)
          (\<lambda>d. activate (entry_conditions params d) ''enter_long'' d)
          (\<lambda>d. activate (exit_conditions params d) ''exit_long'' d) candles) ''exit_long'' i"
proof (cases "IchiV1_populate_indicators lib candles")
  case (Inl e)
  then show ?thesis by (simp add: run_stages_def)
next
  case (Inr d)
  have "cols d ''enter_long'' = cols candles ''enter_long''"
    "cols d ''exit_long'' = cols candles ''exit_long''"
    by (rule assigns_withinD [OF ichi_assigns Inr],
        simp add: ichi_indicator_names_def trend_names_def fan_names_def cloud_names_def)+
  with assms(1,2) have f: "\<not> flag_set d ''enter_long'' i" "\<not> flag_set d ''exit_long'' i"
    by (simp_all add: flag_set_def cell_at_def)
  from assms(3,4) have n: "cell_at d ''fan_magnitude'' i = NaN"
    "cell_at d (sell_trend_indicator params) i = NaN"
    by (simp_all add: Inr)
  have eq: "run_stages (IchiV1_populate_indicators lib)
          (\<lambda>d. activate (entry_conditions params d) ''enter_long'' d)
          (\<lambda>d. activate (exit_conditions params d) ''exit_long'' d) candles =
        bindE (activate (entry_conditions params d) ''enter_long'' d)
          (\<lambda>d. activate (exit_conditions params d) ''exit_long'' d)"
    by (simp add: run_stages_def Inr)
  show ?thesis
    unfolding eq by (rule ichi_signals_unflagged [OF f n])
qed

lemma ichi_fixed_funs:
  "IchiV1_Fixed_populate_indicators lib = IchiV1_populate_indicators lib"
  "IchiV1_Fixed_populate_entry_trend params =
     (\<lambda>d. activate (entry_conditions params d) ''enter_long'' d)"
  "IchiV1_Fixed_populate_exit_trend params =
     (\<lambda>d. activate (exit_conditions params d) ''exit_long'' d)"
  by (rule ext, simp add: IchiV1_Fixed_populate_indicators_def
      IchiV1_Fixed_populate_entry_trend_def IchiV1_Fixed_populate_exit_trend_def)+

lemma ichi_fixed_stages:
  "run_stages (IchiV1_Fixed_populate_indicators lib) (IchiV1_Fixed_populate_entry_trend params)
     (IchiV1_Fixed_populate_exit_trend params) =
   run_stages (IchiV1_populate_indicators lib)
     (\<lambda>d. activate (entry_conditions params d) ''enter_long'' d)
     (\<lambda>d. activate (exit_conditions params d) ''exit_long'' d)"
  by (simp only: ichi_fixed_funs)

lemma ichi_optimizable_stages:
  "run_stages (\<lambda>d. IchiV1_Optimizable_populate_indicators lib d metadata)
     (\<lambda>d. IchiV1_Optimizable_populate_entry_trend params d metadata)
     (\<lambda>d. IchiV1_Optimizable_populate_exit_trend params d metadata) =
   run_stages (IchiV1_populate_indicators lib)
     (\<lambda>d. activate (entry_conditions params d) ''enter_long'' d)
     (\<lambda>d. activate (exit_conditions params d) ''exit_long'' d)"
  by (intro ext) (simp add: run_stages_def IchiV1_Optimizable_populate_indicators_def
      IchiV1_Optimizable_populate_entry_trend_def IchiV1_Optimizable_populate_exit_trend_def)

subsection \<open>Evaluation with the stand-in library\<close>

lemma cell_at_fun: "cols d n = Some s \<Longrightarrow> cell_at d n = s"
  by (rule ext) (simp add: cell_at_def)

lemma grid_flat_eval:
  assumes "cols d ''close'' = Some cls" "cols d ''volume'' = Some vol"
  shows "\<exists>d'. GridStrategy_populate_indicators flat_lib self d md = Inr d' \<and>
    cols d' ''close'' = Some cls \<and> cols d' ''volume'' = Some vol \<and>
    cols d' ''bb_lowerband'' = Some (windowed (Some 20) cls) \<and>
    cols d' ''bb_upperband'' = Some (windowed (Some 20) cls) \<and>
    cols d' ''rsi'' = Some nan_series \<and>
    cols d' ''sma_20'' = Some (windowed (Some 20) cls) \<and>
    cols d' ''volume_sma'' = Some (windowed (Some 20) vol)"
  using assms
  by (simp add: GridStrategy_populate_indicators_def assign_def with_local_def mapE_def
      col_set_col cols_set_col col_def [of d] lookup_def flat_lib_def price_of_def cell_at_fun)

lemma grid_v2_flat_eval:
  assumes "cols d ''close'' = Some cls" "cols d ''volume'' = Some vol"
  shows "\<exists>d'. GridStrategyV2_populate_indicators flat_lib self d md = Inr d' \<and>
    cols d' ''close'' = Some cls \<and> cols d' ''volume'' = Some vol \<and>
    cols d' ''bb_lowerband'' = Some (windowed (Some 20) cls) \<and>
    cols d' ''bb_upperband'' = Some (windowed (Some 20) cls) \<and>
    cols d' ''rsi'' = Some nan_series \<and>
    cols d' ''volume_sma'' = Some (windowed (Some 20) vol)"
  using assms
  by (simp add: GridStrategyV2_populate_indicators_def assign_def with_local_def mapE_def
      col_set_col cols_set_col col_def [of d] lookup_def flat_lib_def price_of_def cell_at_fun)

lemma GridStrategy_entry_returns:
  assumes "cols d ''close'' = Some c" "cols d ''bb_lowerband'' = Some b" "cols d ''rsi'' = Some r"
    "cols d ''sma_20'' = Some s" "cols d ''volume'' = Some v" "cols d ''volume_sma'' = Some w"
  shows "\<exists>d'. GridStrategy_populate_entry_trend d md = Inr d'"
  using assms by (simp add: GridStrategy_populate_entry_trend_def col_def lookup_def)

lemma GridStrategy_exit_returns:
  assumes "cols d ''close'' = Some c" "cols d ''bb_upperband'' = Some b" "cols d ''rsi'' = Some r"
    "cols d ''sma_20'' = Some s" "cols d ''volume'' = Some v" "cols d ''volume_sma'' = Some w"
  shows "\<exists>d'. GridStrategy_populate_exit_trend d md = Inr d'"
  using assms by (simp add: GridStrategy_populate_exit_trend_def col_def lookup_def)

lemma windowed_at: "windowed (Some n) s i = (if i + 1 < n then NaN else s i)"
  by (simp add: windowed_def)

lemma two_candles_ichi:
  obtains d' where "IchiV1_populate_indicators flat_lib two_candles = Inr d'"
    and "cols d' ''open'' = Some (ha_open (series_of [Num 1, Num 4]) (series_of [Num 3, Num 5]))"
    and "cols d' ''close'' = Some (series_of [Num 3, Num 5])"
proof -
  from ichi_indicators_eval [OF two_candles_cols(1-4) flat_lib_keys]
  obtain d' where r: "IchiV1_populate_indicators flat_lib two_candles = Inr d'"
    by blast
  from ichi_indicators_Inr [OF r] have
    "cols d' ''open'' = Some (ha_open (series_of [Num 1, Num 4]) (series_of [Num 3, Num 5]))"
    "cols d' ''close'' = Some (series_of [Num 3, Num 5])"
    by (auto simp: two_candles_cols)
  with r that show thesis by blast
qed

lemma flat_candles_fresh:
  "\<not> flag_set (flat_candles n) ''enter_long'' i" "\<not> flag_set (flat_candles n) ''exit_long'' i"
  by (simp_all add: flag_set_def cell_at_def flat_candles_cols)

lemma flat_grid_warmup:
  "result_cell (GridStrategy_populate_indicators flat_lib GridStrategy (flat_candles 25) ())
     ''bb_lowerband'' 0 = NaN"
  "result_cell (GridStrategy_populate_indicators flat_lib GridStrategy (flat_candles 25) ())
     ''bb_upperband'' 0 = NaN"
  "result_cell (GridStrategy_populate_indicators flat_lib GridStrategy (flat_candles 25) ())
     ''rsi'' 0 = NaN"
  "result_cell (GridStrategy_populate_indicators flat_lib GridStrategy (flat_candles 25) ())
     ''sma_20'' 0 = NaN"
proof -
  from grid_flat_eval [OF flat_candles_cols(4,5), of GridStrategy 25 "()"]
  obtain d1 where r1: "GridStrategy_populate_indicators flat_lib GridStrategy (flat_candles 25) ()
      = Inr d1"
    and c1: "cols d1 ''bb_lowerband'' = Some (windowed (Some 20) (scalar 100))"
      "cols d1 ''bb_upperband'' = Some (windowed (Some 20) (scalar 100))"
      "cols d1 ''rsi'' = Some nan_series"
      "cols d1 ''sma_20'' = Some (windowed (Some 20) (scalar 100))"
    by blast
  show "result_cell (GridStrategy_populate_indicators flat_lib GridStrategy (flat_candles 25) ())
     ''bb_lowerband'' 0 = NaN"
    "result_cell (GridStrategy_populate_indicators flat_lib GridStrategy (flat_candles 25) ())
     ''bb_upperband'' 0 = NaN"
    "result_cell (GridStrategy_populate_indicators flat_lib GridStrategy (flat_candles 25) ())
     ''rsi'' 0 = NaN"
    "result_cell (GridStrategy_populate_indicators flat_lib GridStrategy (flat_candles 25) ())
     ''sma_20'' 0 = NaN"
    by (simp_all add: r1 cell_at_def c1 windowed_at nan_series_def)
qed

lemma flat_grid_v2_warmup:
  "result_cell (GridStrategyV2_populate_indicators flat_lib GridStrategyV2 (flat_candles 25) ())
     ''bb_lowerband'' 0 = NaN"
  "result_cell (GridStrategyV2_populate_indicators flat_lib GridStrategyV2 (flat_candles 25) ())
     ''rsi'' 0 = NaN"
proof -
  from grid_v2_flat_eval [OF flat_candles_cols(4,5), of GridStrategyV2 25 "()"]
  obtain d1 where r1:
    "GridStrategyV2_populate_indicators flat_lib GridStrategyV2 (flat_candles 25) () = Inr d1"
    and c1: "cols d1 ''bb_lowerband'' = Some (windowed (Some 20) (scalar 100))"
      "cols d1 ''rsi'' = Some nan_series"
    by blast
  show "result_cell (GridStrategyV2_populate_indicators flat_lib GridStrategyV2
      (flat_candles 25) ()) ''bb_lowerband'' 0 = NaN"
    "result_cell (GridStrategyV2_populate_indicators flat_lib GridStrategyV2
      (flat_candles 25) ()) ''rsi'' 0 = NaN"
    by (simp_all add: r1 cell_at_def c1 windowed_at nan_series_def)
qed

lemma flat_ichi_warmup:
  "result_cell (IchiV1_populate_indicators flat_lib (flat_candles 25)) ''fan_magnitude'' 0 = NaN"
  "result_cell (IchiV1_populate_indicators flat_lib (flat_candles 25))
     ''trend_close_30m'' 0 = NaN"
proof -
  from ichi_indicators_eval [OF flat_candles_cols(1-4) flat_lib_keys, of 25]
  obtain d' where r: "IchiV1_populate_indicators flat_lib (flat_candles 25) = Inr d'"
    and c: "cols d' ''trend_close_30m'' = Some (ta_EMA flat_lib (SR (scalar 100)) (Some 6))"
      "cols d' ''trend_close_1h'' = Some (ta_EMA flat_lib (SR (scalar 100)) (Some 12))"
      "cols d' ''trend_close_8h'' = Some (ta_EMA flat_lib (SR (scalar 100)) (Some 96))"
    by blast
  from ichi_fan_Inr [OF r] c
  have fm: "cols d' ''fan_magnitude'' =
      Some (series_div (ta_EMA flat_lib (SR (scalar 100)) (Some 12))
        (ta_EMA flat_lib (SR (scalar 100)) (Some 96)))"
    by auto
  show "result_cell (IchiV1_populate_indicators flat_lib (flat_candles 25))
      ''fan_magnitude'' 0 = NaN"
    "result_cell (IchiV1_populate_indicators flat_lib (flat_candles 25))
      ''trend_close_30m'' 0 = NaN"
    by (simp_all add: r cell_at_def fm c series_div_def flat_lib_EMA)
qed

section \<open>The stop-loss hook\<close>

text \<open>
  C2, as amended. \<^verbatim>\<open>GridStrategy.custom_stoploss\<close> is a two-tier function of the profit
  alone: above 0.01 it returns -0.02, at or below 0.01 the configured -0.05, whatever the
  pair, trade, time and rate. \<^verbatim>\<open>GridStrategyV2\<close> declares no such hook: a call runs the
  method inherited from the host's base class, and the class only configures the
  stop-loss -0.06.
\<close>

theorem custom_stoploss_two_tier:
  "(cell_gt current_profit (Num 0.01) \<longrightarrow>
      GridStrategy_custom_stoploss GridStrategy pair trade current_time current_rate
        current_profit = - 0.02) \<and>
   (cell_le current_profit (Num 0.01) \<longrightarrow>
      GridStrategy_custom_stoploss GridStrategy pair trade current_time current_rate
        current_profit = - 0.05) \<and>
   GridStrategyV2_custom_stoploss inherited GridStrategyV2 pair trade current_time
     current_rate current_profit =
     inherited GridStrategyV2 pair trade current_time current_rate current_profit \<and>
   stoploss GridStrategyV2 = - 0.06"
  by (cases current_profit)
     (auto simp: GridStrategy_custom_stoploss_def GridStrategyV2_custom_stoploss_def
        GridStrategy_def GridStrategyV2_def cell_gt_def cell_le_def)

theorem custom_stoploss_two_tier_witness:
  "cell_gt (Num 0.015) (Num 0.01) \<and>
   GridStrategy_custom_stoploss GridStrategy ''BTC/USDT'' () () (Num 100) (Num 0.015) = - 0.02 \<and>
   cell_le (Num 0.005) (Num 0.01) \<and>
   GridStrategy_custom_stoploss GridStrategy ''BTC/USDT'' () () (Num 100) (Num 0.005) = - 0.05"
  using custom_stoploss_two_tier [of "Num 0.015" "''BTC/USDT''" "()" "()" "Num 100"]
    custom_stoploss_two_tier [of "Num 0.005" "''BTC/USDT''" "()" "()" "Num 100"]
  by (simp add: cell_gt_def cell_le_def)

text \<open>
  C2 as stated fails for \<^verbatim>\<open>GridStrategyV2\<close>: with the host's base-class hook, a profit of
  0.015 gives the configured -0.06 and not -0.02.
\<close>

theorem custom_stoploss_V2_counterexample:
  "cell_gt (Num 0.015) (Num 0.01) \<and>
   GridStrategyV2_custom_stoploss IStrategy_custom_stoploss GridStrategyV2
     ''BTC/USDT'' () () (Num 100) (Num 0.015) \<noteq> - 0.02"
  by (simp add: cell_gt_def GridStrategyV2_custom_stoploss_def IStrategy_custom_stoploss_def
      GridStrategyV2_def)

section \<open>Sanity gates of the Grid entries\<close>

text \<open>
  C4, as amended. A row receives an entry flag from \<^verbatim>\<open>GridStrategy.populate_entry_trend\<close>
  only if close > 0 and volume > 0 hold at the row; from
  \<^verbatim>\<open>GridStrategyV2.populate_entry_trend\<close> only if volume > 0 holds at the row (that
  method has no gate on the price).
\<close>

theorem entry_sanity_gates:
  "(\<not> flag_set d ''enter_long'' i \<and>
    result_flag (GridStrategy_populate_entry_trend d metadata) ''enter_long'' i \<longrightarrow>
      cell_gt (cell_at d ''close'' i) (Num 0) \<and> cell_gt (cell_at d ''volume'' i) (Num 0)) \<and>
   (\<not> flag_set d ''enter_long'' i \<and>
    result_flag (GridStrategyV2_populate_entry_trend d metadata) ''enter_long'' i \<longrightarrow>
      cell_gt (cell_at d ''volume'' i) (Num 0))"
proof (intro conjI impI)
  assume a: "\<not> flag_set d ''enter_long'' i \<and>
    result_flag (GridStrategy_populate_entry_trend d metadata) ''enter_long'' i"
  then obtain d' where "GridStrategy_populate_entry_trend d metadata = Inr d'"
    and "flag_set d' ''enter_long'' i"
    by (auto simp: result_flag_Inr_iff)
  with a show "cell_gt (cell_at d ''close'' i) (Num 0)"
    and "cell_gt (cell_at d ''volume'' i) (Num 0)"
    by (auto dest!: GridStrategy_entry_Inr simp: flag_set_loc_set)
next
  assume a: "\<not> flag_set d ''enter_long'' i \<and>
    result_flag (GridStrategyV2_populate_entry_trend d metadata) ''enter_long'' i"
  then obtain d' where "GridStrategyV2_populate_entry_trend d metadata = Inr d'"
    and "flag_set d' ''enter_long'' i"
    by (auto simp: result_flag_Inr_iff)
  with a show "cell_gt (cell_at d ''volume'' i) (Num 0)"
    by (auto dest!: GridStrategyV2_entry_Inr simp: flag_set_loc_set)
qed

theorem entry_sanity_gates_witness:
  "\<not> flag_set entry_row_frame ''enter_long'' 0 \<and>
   result_flag (GridStrategy_populate_entry_trend entry_row_frame ()) ''enter_long'' 0 \<and>
   result_flag (GridStrategyV2_populate_entry_trend entry_row_frame ()) ''enter_long'' 0 \<and>
   cell_gt (cell_at entry_row_frame ''close'' 0) (Num 0) \<and>
   cell_gt (cell_at entry_row_frame ''volume'' 0) (Num 0)"
proof -
  have a: "\<not> flag_set entry_row_frame ''enter_long'' 0"
    by (simp add: entry_row_frame_def flag_set_def cell_at_def)
  have b: "result_flag (GridStrategy_populate_entry_trend entry_row_frame ()) ''enter_long'' 0"
    by (simp add: entry_row_frame_def GridStrategy_populate_entry_trend_def col_def lookup_def
        result_flag_def flag_set_def cols_loc_set cell_at_def series_of_def mask_defs
        cell_le_def cell_gt_def)
  have c: "result_flag (GridStrategyV2_populate_entry_trend entry_row_frame ()) ''enter_long'' 0"
    by (simp add: entry_row_frame_def GridStrategyV2_populate_entry_trend_def col_def lookup_def
        result_flag_def flag_set_def cols_loc_set cell_at_def series_of_def mask_defs
        cell_le_def cell_gt_def)
  from a b c entry_sanity_gates [of entry_row_frame 0 "()"] show ?thesis by blast
qed

text \<open>
  C4 as stated fails for \<^verbatim>\<open>GridStrategyV2\<close>: a row whose close is 0, at a lower band of
  0 and with a positive volume, receives the entry flag.
\<close>

theorem entry_sanity_gates_V2_counterexample:
  "cell_le (cell_at zero_close_frame ''close'' 0) (Num 0) \<and>
   \<not> flag_set zero_close_frame ''enter_long'' 0 \<and>
   result_flag (GridStrategyV2_populate_entry_trend zero_close_frame ()) ''enter_long'' 0"
  by (simp add: zero_close_frame_def GridStrategyV2_populate_entry_trend_def col_def lookup_def
      result_flag_def flag_set_def cols_loc_set cell_at_def series_of_def mask_defs
      cell_le_def cell_gt_def)

section \<open>The IchiV1 entry scenario\<close>

text \<open>
  C1, as amended. With \<^verbatim>\<open>buy_trend_above_senkou_level = 1\<close>,
  \<^verbatim>\<open>buy_trend_bullish_level = 1\<close>, \<^verbatim>\<open>buy_min_fan_magnitude_gain = 1.0\<close> and
  \<^verbatim>\<open>buy_fan_magnitude_shift_value = 0\<close>, on a dataframe whose entry flag is not yet set
  at row \<open>i\<close>, both IchiV1 classes set the entry flag at row \<open>i\<close> iff
  trend_close_5m > senkou_a, trend_close_5m > senkou_b, trend_close_5m > trend_open_5m,
  fan_magnitude_gain >= 1.0 and fan_magnitude > 1 all hold at row \<open>i\<close>. (A column that
  is missing makes the method raise, and it then sets no flag.)
\<close>

theorem entry_and_pattern:
  assumes "buy_trend_above_senkou_level self = 1" and "buy_trend_bullish_level self = 1"
    and "buy_fan_magnitude_shift_value self = 0" and "buy_min_fan_magnitude_gain self = 1.0"
    and "\<not> flag_set d ''enter_long'' i"
  shows "(result_flag (IchiV1_Fixed_populate_entry_trend self d) ''enter_long'' i \<longleftrightarrow>
     cell_gt (cell_at d ''trend_close_5m'' i) (cell_at d ''senkou_a'' i) \<and>
     cell_gt (cell_at d ''trend_close_5m'' i) (cell_at d ''senkou_b'' i) \<and>
     cell_gt (cell_at d ''trend_close_5m'' i) (cell_at d ''trend_open_5m'' i) \<and>
     cell_ge (cell_at d ''fan_magnitude_gain'' i) (Num 1.0) \<and>
     cell_gt (cell_at d ''fan_magnitude'' i) (Num 1)) \<and>
   (result_flag (IchiV1_Optimizable_populate_entry_trend self d metadata) ''enter_long'' i \<longleftrightarrow>
     cell_gt (cell_at d ''trend_close_5m'' i) (cell_at d ''senkou_a'' i) \<and>
     cell_gt (cell_at d ''trend_close_5m'' i) (cell_at d ''senkou_b'' i) \<and>
     cell_gt (cell_at d ''trend_close_5m'' i) (cell_at d ''trend_open_5m'' i) \<and>
     cell_ge (cell_at d ''fan_magnitude_gain'' i) (Num 1.0) \<and>
     cell_gt (cell_at d ''fan_magnitude'' i) (Num 1))"
  unfolding IchiV1_Fixed_populate_entry_trend_def IchiV1_Optimizable_populate_entry_trend_def
  using result_flag_entry_scenario [OF assms] by simp

theorem entry_and_pattern_witness:
  "\<not> flag_set full_frame ''enter_long'' 1 \<and>
   result_flag (IchiV1_Fixed_populate_entry_trend scenario_params full_frame) ''enter_long'' 1 \<and>
   result_flag (IchiV1_Optimizable_populate_entry_trend scenario_params full_frame ())
     ''enter_long'' 1"
proof -
  have fresh: "\<not> flag_set full_frame ''enter_long'' 1"
    by (simp add: flag_set_def full_frame_cells)
  from entry_and_pattern [of scenario_params full_frame 1 "()", OF _ _ _ _ fresh] fresh
  show ?thesis
    by (simp add: full_frame_cells)
qed

text \<open>
  C1 as stated leaves out the condition on the gain: at row 1 of the dataframe below the
  four conditions of the claim hold, the gain is 0.75, and no entry flag is set.
\<close>

theorem entry_and_pattern_counterexample:
  "cell_gt (cell_at fading_fan_frame ''trend_close_5m'' 1) (cell_at fading_fan_frame ''senkou_a'' 1) \<and>
   cell_gt (cell_at fading_fan_frame ''trend_close_5m'' 1) (cell_at fading_fan_frame ''senkou_b'' 1) \<and>
   cell_gt (cell_at fading_fan_frame ''trend_close_5m'' 1)
     (cell_at fading_fan_frame ''trend_open_5m'' 1) \<and>
   cell_gt (cell_at fading_fan_frame ''fan_magnitude'' 1) (Num 1) \<and>
   \<not> flag_set fading_fan_frame ''enter_long'' 1 \<and>
   \<not> result_flag (IchiV1_Fixed_populate_entry_trend scenario_params fading_fan_frame)
       ''enter_long'' 1 \<and>
   \<not> result_flag (IchiV1_Optimizable_populate_entry_trend scenario_params fading_fan_frame ())
       ''enter_long'' 1"
proof -
  have fresh: "\<not> flag_set fading_fan_frame ''enter_long'' 1"
    by (simp add: flag_set_def fading_fan_frame_cells)
  have "\<not> result_flag (activate (entry_conditions scenario_params fading_fan_frame)
      ''enter_long'' fading_fan_frame) ''enter_long'' 1"
    using fresh
    by (subst result_flag_entry_scenario) (simp_all add: fading_fan_frame_cells)
  with fresh show ?thesis
    by (simp add: IchiV1_Fixed_populate_entry_trend_def
        IchiV1_Optimizable_populate_entry_trend_def fading_fan_frame_cells)
qed

section \<open>The IchiV1 exit\<close>

text \<open>
  C6. On a dataframe whose exit flag is not yet set at row \<open>i\<close>, both IchiV1 classes set
  the exit flag at row \<open>i\<close> iff \<open>i \<ge> 1\<close>, trend_close_5m was at or above the configured
  \<^verbatim>\<open>sell_trend_indicator\<close> column at row \<open>i - 1\<close> and is below it at row \<open>i\<close>; the flag
  is not set at row 0, nor where either column is undefined at row \<open>i - 1\<close> or \<open>i\<close>.
\<close>

theorem exit_crosses_below:
  assumes "\<not> flag_set d ''exit_long'' i"
  shows "(result_flag (IchiV1_Fixed_populate_exit_trend self d) ''exit_long'' i \<longleftrightarrow>
      0 < i \<and>
      cell_ge (cell_at d ''trend_close_5m'' (i - 1))
        (cell_at d (sell_trend_indicator self) (i - 1)) \<and>
      cell_lt (cell_at d ''trend_close_5m'' i) (cell_at d (sell_trend_indicator self) i)) \<and>
    (result_flag (IchiV1_Optimizable_populate_exit_trend self d metadata) ''exit_long'' i \<longleftrightarrow>
      0 < i \<and>
      cell_ge (cell_at d ''trend_close_5m'' (i - 1))
        (cell_at d (sell_trend_indicator self) (i - 1)) \<and>
      cell_lt (cell_at d ''trend_close_5m'' i) (cell_at d (sell_trend_indicator self) i)) \<and>
    (i = 0 \<or> cell_at d ''trend_close_5m'' i = NaN \<or>
     cell_at d (sell_trend_indicator self) i = NaN \<or>
     cell_at d ''trend_close_5m'' (i - 1) = NaN \<or>
     cell_at d (sell_trend_indicator self) (i - 1) = NaN \<longrightarrow>
      \<not> result_flag (IchiV1_Fixed_populate_exit_trend self d) ''exit_long'' i \<and>
      \<not> result_flag (IchiV1_Optimizable_populate_exit_trend self d metadata) ''exit_long'' i)"
  unfolding IchiV1_Fixed_populate_exit_trend_def IchiV1_Optimizable_populate_exit_trend_def
  using result_flag_exit [OF assms, of self] by auto

theorem exit_crosses_below_witness:
  "\<not> flag_set full_frame ''exit_long'' 1 \<and>
   cell_ge (cell_at full_frame ''trend_close_5m'' 0) (cell_at full_frame ''trend_close_30m'' 0) \<and>
   cell_lt (cell_at full_frame ''trend_close_5m'' 1) (cell_at full_frame ''trend_close_30m'' 1) \<and>
   result_flag (IchiV1_Fixed_populate_exit_trend scenario_params full_frame) ''exit_long'' 1 \<and>
   result_flag (IchiV1_Optimizable_populate_exit_trend scenario_params full_frame ())
     ''exit_long'' 1 \<and>
   \<not> flag_set full_frame ''exit_long'' 0 \<and>
   \<not> result_flag (IchiV1_Fixed_populate_exit_trend scenario_params full_frame) ''exit_long'' 0"
proof -
  have fresh: "\<not> flag_set full_frame ''exit_long'' 1"
    by (simp add: flag_set_def full_frame_cells)
  have fresh0: "\<not> flag_set full_frame ''exit_long'' 0"
    by (simp add: flag_set_def full_frame_def cell_at_def)
  from exit_crosses_below [of full_frame 1 scenario_params "()", OF fresh]
    exit_crosses_below [of full_frame 0 scenario_params "()", OF fresh0] fresh fresh0
  show ?thesis
    by (simp add: full_frame_cells)
qed

section \<open>Raising a level only removes entries\<close>

text \<open>
  C10. For both IchiV1 classes, every dataframe and every row: if \<open>L \<le> L'\<close>, a row whose
  entry flag is set with \<^verbatim>\<open>buy_trend_above_senkou_level = L'\<close> also has it set with level
  \<open>L\<close>, the other parameters being the same; likewise for \<^verbatim>\<open>buy_trend_bullish_level\<close> and
  for \<^verbatim>\<open>buy_fan_magnitude_shift_value\<close>.
\<close>

theorem entry_antitone:
  assumes "L \<le> L'"
  shows
   "(result_flag (IchiV1_Fixed_populate_entry_trend
        (self\<lparr>buy_trend_above_senkou_level := L'\<rparr>) d) ''enter_long'' i \<longrightarrow>
     result_flag (IchiV1_Fixed_populate_entry_trend
        (self\<lparr>buy_trend_above_senkou_level := L\<rparr>) d) ''enter_long'' i) \<and>
    (result_flag (IchiV1_Fixed_populate_entry_trend
        (self\<lparr>buy_trend_bullish_level := L'\<rparr>) d) ''enter_long'' i \<longrightarrow>
     result_flag (IchiV1_Fixed_populate_entry_trend
        (self\<lparr>buy_trend_bullish_level := L\<rparr>) d) ''enter_long'' i) \<and>
    (result_flag (IchiV1_Fixed_populate_entry_trend
        (self\<lparr>buy_fan_magnitude_shift_value := L'\<rparr>) d) ''enter_long'' i \<longrightarrow>
     result_flag (IchiV1_Fixed_populate_entry_trend
        (self\<lparr>buy_fan_magnitude_shift_value := L\<rparr>) d) ''enter_long'' i) \<and>
    (result_flag (IchiV1_Optimizable_populate_entry_trend
        (self\<lparr>buy_trend_above_senkou_level := L'\<rparr>) d metadata) ''enter_long'' i \<longrightarrow>
     result_flag (IchiV1_Optimizable_populate_entry_trend
        (self\<lparr>buy_trend_above_senkou_level := L\<rparr>) d metadata) ''enter_long'' i) \<and>
    (result_flag (IchiV1_Optimizable_populate_entry_trend
        (self\<lparr>buy_trend_bullish_level := L'\<rparr>) d metadata) ''enter_long'' i \<longrightarrow>
     result_flag (IchiV1_Optimizable_populate_entry_trend
        (self\<lparr>buy_trend_bullish_level := L\<rparr>) d metadata) ''enter_long'' i) \<and>
    (result_flag (IchiV1_Optimizable_populate_entry_trend
        (self\<lparr>buy_fan_magnitude_shift_value := L'\<rparr>) d metadata) ''enter_long'' i \<longrightarrow>
     result_flag (IchiV1_Optimizable_populate_entry_trend
        (self\<lparr>buy_fan_magnitude_shift_value := L\<rparr>) d metadata) ''enter_long'' i)"
proof -
  have mono: "result_flag (activate (entry_conditions p' d) ''enter_long'' d) ''enter_long'' i \<longrightarrow>
      result_flag (activate (entry_conditions p d) ''enter_long'' d) ''enter_long'' i"
    if "buy_trend_above_senkou_level p \<le> buy_trend_above_senkou_level p'"
      and "buy_trend_bullish_level p \<le> buy_trend_bullish_level p'"
      and "buy_fan_magnitude_shift_value p \<le> buy_fan_magnitude_shift_value p'"
      and "buy_min_fan_magnitude_gain p = buy_min_fan_magnitude_gain p'"
    for p p'
    using entry_flag_mono [OF that] by blast
  show ?thesis
    unfolding IchiV1_Fixed_populate_entry_trend_def IchiV1_Optimizable_populate_entry_trend_def
    using assms by (intro conjI mono; simp)
qed

theorem entry_antitone_witness:
  "(1::int) \<le> 2 \<and>
   result_flag (IchiV1_Fixed_populate_entry_trend
     (scenario_params\<lparr>buy_trend_above_senkou_level := 2\<rparr>) full_frame) ''enter_long'' 1 \<and>
   result_flag (IchiV1_Fixed_populate_entry_trend
     (scenario_params\<lparr>buy_trend_above_senkou_level := 1\<rparr>) full_frame) ''enter_long'' 1 \<and>
   result_flag (IchiV1_Optimizable_populate_entry_trend
     (scenario_params\<lparr>buy_trend_bullish_level := 2\<rparr>) full_frame ()) ''enter_long'' 1 \<and>
   result_flag (IchiV1_Optimizable_populate_entry_trend
     (scenario_params\<lparr>buy_trend_bullish_level := 1\<rparr>) full_frame ()) ''enter_long'' 1 \<and>
   (0::int) \<le> 1 \<and>
   result_flag (IchiV1_Fixed_populate_entry_trend
     (scenario_params\<lparr>buy_fan_magnitude_shift_value := 1\<rparr>) full_frame) ''enter_long'' 1 \<and>
   result_flag (IchiV1_Fixed_populate_entry_trend
     (scenario_params\<lparr>buy_fan_magnitude_shift_value := 0\<rparr>) full_frame) ''enter_long'' 1"
proof -
  have a: "result_flag (IchiV1_Fixed_populate_entry_trend
     (scenario_params\<lparr>buy_trend_above_senkou_level := 2\<rparr>) full_frame) ''enter_long'' 1"
    unfolding IchiV1_Fixed_populate_entry_trend_def by (simp add: entry_eval)
  have b: "result_flag (IchiV1_Optimizable_populate_entry_trend
     (scenario_params\<lparr>buy_trend_bullish_level := 2\<rparr>) full_frame ()) ''enter_long'' 1"
    unfolding IchiV1_Optimizable_populate_entry_trend_def by (simp add: entry_eval)
  have c: "result_flag (IchiV1_Fixed_populate_entry_trend
     (scenario_params\<lparr>buy_fan_magnitude_shift_value := 1\<rparr>) full_frame) ''enter_long'' 1"
    unfolding IchiV1_Fixed_populate_entry_trend_def by (simp add: entry_eval)
  have le: "(1::int) \<le> 2" "(0::int) \<le> 1" by simp_all
  from a b c le entry_antitone [OF le(1), of scenario_params full_frame 1 "()"]
    entry_antitone [OF le(2), of scenario_params full_frame 1 "()"]
  show ?thesis by blast
qed

section \<open>Signal methods only write 1\<close>

text \<open>
  C9. Each of the eight signal methods, when it returns, has kept the rows and every other
  column of the dataframe, has written 1 into its flag column exactly at the rows where its
  condition holds, and has left every other row of that column as it was: missing when the
  column did not exist before, never 0 or false.
\<close>

theorem signals_assign_only_one:
  "result_assigns (GridStrategy_populate_entry_trend d metadata) d ''enter_long'' (\<lambda>i.
      (cell_le (cell_at d ''close'' i) (cell_at d ''bb_lowerband'' i) \<or>
       cell_lt (cell_at d ''rsi'' i) (Num 40) \<or>
       cell_lt (cell_at d ''close'' i) (cell_at d ''sma_20'' i) \<and>
       cell_gt (cell_at d ''volume'' i) (cell_at d ''volume_sma'' i)) \<and>
      cell_gt (cell_at d ''volume'' i) (Num 0) \<and>
      cell_gt (cell_at d ''close'' i) (Num 0)) \<and>
   result_assigns (GridStrategy_populate_exit_trend d metadata) d ''exit_long'' (\<lambda>i.
      (cell_ge (cell_at d ''close'' i) (cell_at d ''bb_upperband'' i) \<or>
       cell_gt (cell_at d ''rsi'' i) (Num 60) \<or>
       cell_gt (cell_at d ''close'' i) (cell_at d ''sma_20'' i) \<and>
       cell_gt (cell_at d ''volume'' i) (cell_at d ''volume_sma'' i)) \<and>
      cell_gt (cell_at d ''volume'' i) (Num 0)) \<and>
   result_assigns (GridStrategyV2_populate_entry_trend d metadata) d ''enter_long'' (\<lambda>i.
      (cell_le (cell_at d ''close'' i) (cell_at d ''bb_lowerband'' i) \<or>
       cell_lt (cell_at d ''rsi'' i) (Num 30)) \<and>
      cell_gt (cell_at d ''volume'' i) (Num 0)) \<and>
   result_assigns (GridStrategyV2_populate_exit_trend d metadata) d ''exit_long'' (\<lambda>i.
      (cell_ge (cell_at d ''close'' i) (cell_at d ''bb_upperband'' i) \<and>
       cell_gt (cell_at d ''rsi'' i) (Num 70)) \<and>
      cell_gt (cell_at d ''volume'' i) (Num 0)) \<and>
   result_assigns (IchiV1_Fixed_populate_entry_trend self d) d ''enter_long''
     (\<lambda>i. \<forall>r\<in>set (entry_conditions self d). holds_at i r) \<and>
   result_assigns (IchiV1_Fixed_populate_exit_trend self d) d ''exit_long''
     (\<lambda>i. \<forall>r\<in>set (exit_conditions self d). holds_at i r) \<and>
   result_assigns (IchiV1_Optimizable_populate_entry_trend self d metadata) d ''enter_long''
     (\<lambda>i. \<forall>r\<in>set (entry_conditions self d). holds_at i r) \<and>
   result_assigns (IchiV1_Optimizable_populate_exit_trend self d metadata) d ''exit_long''
     (\<lambda>i. \<forall>r\<in>set (exit_conditions self d). holds_at i r)"
proof (intro conjI)
  show "result_assigns (GridStrategy_populate_entry_trend d metadata) d ''enter_long'' (\<lambda>i.
      (cell_le (cell_at d ''close'' i) (cell_at d ''bb_lowerband'' i) \<or>
       cell_lt (cell_at d ''rsi'' i) (Num 40) \<or>
       cell_lt (cell_at d ''close'' i) (cell_at d ''sma_20'' i) \<and>
       cell_gt (cell_at d ''volume'' i) (cell_at d ''volume_sma'' i)) \<and>
      cell_gt (cell_at d ''volume'' i) (Num 0) \<and>
      cell_gt (cell_at d ''close'' i) (Num 0))"
    by (cases "GridStrategy_populate_entry_trend d metadata")
      (auto simp: result_assigns_def assigns_loc_set dest!: GridStrategy_entry_Inr)
  show "result_assigns (GridStrategy_populate_exit_trend d metadata) d ''exit_long'' (\<lambda>i.
      (cell_ge (cell_at d ''close'' i) (cell_at d ''bb_upperband'' i) \<or>
       cell_gt (cell_at d ''rsi'' i) (Num 60) \<or>
       cell_gt (cell_at d ''close'' i) (cell_at d ''sma_20'' i) \<and>
       cell_gt (cell_at d ''volume'' i) (cell_at d ''volume_sma'' i)) \<and>
      cell_gt (cell_at d ''volume'' i) (Num 0))"
    by (cases "GridStrategy_populate_exit_trend d metadata")
      (auto simp: result_assigns_def assigns_loc_set dest!: GridStrategy_exit_Inr)
  show "result_assigns (GridStrategyV2_populate_entry_trend d metadata) d ''enter_long'' (\<lambda>i.
      (cell_le (cell_at d ''close'' i) (cell_at d ''bb_lowerband'' i) \<or>
       cell_lt (cell_at d ''rsi'' i) (Num 30)) \<and>
      cell_gt (cell_at d ''volume'' i) (Num 0))"
    by (cases "GridStrategyV2_populate_entry_trend d metadata")
      (auto simp: result_assigns_def assigns_loc_set dest!: GridStrategyV2_entry_Inr)
  show "result_assigns (GridStrategyV2_populate_exit_trend d metadata) d ''exit_long'' (\<lambda>i.
      (cell_ge (cell_at d ''close'' i) (cell_at d ''bb_upperband'' i) \<and>
       cell_gt (cell_at d ''rsi'' i) (Num 70)) \<and>
      cell_gt (cell_at d ''volume'' i) (Num 0))"
    by (cases "GridStrategyV2_populate_exit_trend d metadata")
      (auto simp: result_assigns_def assigns_loc_set dest!: GridStrategyV2_exit_Inr)
  have e: "entry_conditions self d \<noteq> []" by (rule entry_conditions_nonempty)
  have x: "exit_conditions self d \<noteq> []" by (simp add: exit_conditions_def)
  show "result_assigns (IchiV1_Fixed_populate_entry_trend self d) d ''enter_long''
     (\<lambda>i. \<forall>r\<in>set (entry_conditions self d). holds_at i r)"
    unfolding IchiV1_Fixed_populate_entry_trend_def by (rule result_assigns_activate [OF e])
  show "result_assigns (IchiV1_Fixed_populate_exit_trend self d) d ''exit_long''
     (\<lambda>i. \<forall>r\<in>set (exit_conditions self d). holds_at i r)"
    unfolding IchiV1_Fixed_populate_exit_trend_def by (rule result_assigns_activate [OF x])
  show "result_assigns (IchiV1_Optimizable_populate_entry_trend self d metadata) d ''enter_long''
     (\<lambda>i. \<forall>r\<in>set (entry_conditions self d). holds_at i r)"
    unfolding IchiV1_Optimizable_populate_entry_trend_def
    by (rule result_assigns_activate [OF e])
  show "result_assigns (IchiV1_Optimizable_populate_exit_trend self d metadata) d ''exit_long''
     (\<lambda>i. \<forall>r\<in>set (exit_conditions self d). holds_at i r)"
    unfolding IchiV1_Optimizable_populate_exit_trend_def
    by (rule result_assigns_activate [OF x])
qed

theorem signals_assign_only_one_witness:
  "result_cell (GridStrategy_populate_entry_trend full_frame ()) ''enter_long'' 1 = Num 1 \<and>
   result_cell (GridStrategy_populate_exit_trend full_frame ()) ''exit_long'' 1 = NaN \<and>
   result_cell (IchiV1_Fixed_populate_entry_trend scenario_params full_frame) ''enter_long'' 1 =
     Num 1"
proof -
  note inst = signals_assign_only_one [of full_frame "()" scenario_params]
  have "\<exists>d'. GridStrategy_populate_entry_trend full_frame () = Inr d'"
    by (simp add: GridStrategy_populate_entry_trend_def col_def lookup_def full_frame_grid_cols)
  then obtain d1 where d1: "GridStrategy_populate_entry_trend full_frame () = Inr d1" ..
  have "\<exists>d'. GridStrategy_populate_exit_trend full_frame () = Inr d'"
    by (simp add: GridStrategy_populate_exit_trend_def col_def lookup_def full_frame_grid_cols)
  then obtain d2 where d2: "GridStrategy_populate_exit_trend full_frame () = Inr d2" ..
  have "\<exists>d'. IchiV1_Fixed_populate_entry_trend scenario_params full_frame = Inr d'"
    unfolding IchiV1_Fixed_populate_entry_trend_def activate_returns
    by (simp add: entry_conditions_def entry_eval)
  then obtain d3 where d3: "IchiV1_Fixed_populate_entry_trend scenario_params full_frame = Inr d3" ..
  have a: "result_cell (GridStrategy_populate_entry_trend full_frame ()) ''enter_long'' 1 = Num 1"
    by (simp add: result_assigns_cell [OF inst [THEN conjunct1] d1] full_frame_cells)
  have b: "result_cell (GridStrategy_populate_exit_trend full_frame ()) ''exit_long'' 1 = NaN"
    by (simp add: result_assigns_cell [OF inst [THEN conjunct2, THEN conjunct1] d2]
        full_frame_cells)
  have c: "result_cell (IchiV1_Fixed_populate_entry_trend scenario_params full_frame)
      ''enter_long'' 1 = Num 1"
    by (subst result_assigns_cell [OF inst [THEN conjunct2, THEN conjunct2, THEN conjunct2,
        THEN conjunct2, THEN conjunct1] d3]) (simp add: entry_conditions_def entry_eval)
  from a b c show ?thesis by blast
qed

section \<open>The fan magnitude and its gain\<close>

text \<open>
  C8. Whenever the IchiV1 indicator stage returns, the fan magnitude at every row is
  trend_close_1h divided by trend_close_8h, the fan magnitude gain at row 0 is undefined,
  and at every row \<open>i \<ge> 1\<close> the gain is the fan magnitude at row \<open>i\<close> divided by the fan
  magnitude at row \<open>i - 1\<close>: the quotient of the two numbers when both are defined and the
  divisor is not zero.
\<close>

theorem fan_magnitude_gain_rows:
  "(\<forall>d'. IchiV1_Fixed_populate_indicators lib d = Inr d' \<longrightarrow>
      cols d' ''fan_magnitude'' \<noteq> None \<and> cols d' ''fan_magnitude_gain'' \<noteq> None \<and>
      (\<forall>i. cell_at d' ''fan_magnitude'' i =
         cell_div (cell_at d' ''trend_close_1h'' i) (cell_at d' ''trend_close_8h'' i)) \<and>
      cell_at d' ''fan_magnitude_gain'' 0 = NaN \<and>
      (\<forall>i\<ge>1. cell_at d' ''fan_magnitude_gain'' i =
         cell_div (cell_at d' ''fan_magnitude'' i) (cell_at d' ''fan_magnitude'' (i - 1))) \<and>
      (\<forall>i\<ge>1. \<forall>x y. cell_at d' ''fan_magnitude'' i = Num x \<and>
         cell_at d' ''fan_magnitude'' (i - 1) = Num y \<and> y \<noteq> 0 \<longrightarrow>
         cell_at d' ''fan_magnitude_gain'' i = Num (x / y))) \<and>
   (\<forall>d'. IchiV1_Optimizable_populate_indicators lib d metadata = Inr d' \<longrightarrow>
      cols d' ''fan_magnitude'' \<noteq> None \<and> cols d' ''fan_magnitude_gain'' \<noteq> None \<and>
      (\<forall>i. cell_at d' ''fan_magnitude'' i =
         cell_div (cell_at d' ''trend_close_1h'' i) (cell_at d' ''trend_close_8h'' i)) \<and>
      cell_at d' ''fan_magnitude_gain'' 0 = NaN \<and>
      (\<forall>i\<ge>1. cell_at d' ''fan_magnitude_gain'' i =
         cell_div (cell_at d' ''fan_magnitude'' i) (cell_at d' ''fan_magnitude'' (i - 1))) \<and>
      (\<forall>i\<ge>1. \<forall>x y. cell_at d' ''fan_magnitude'' i = Num x \<and>
         cell_at d' ''fan_magnitude'' (i - 1) = Num y \<and> y \<noteq> 0 \<longrightarrow>
         cell_at d' ''fan_magnitude_gain'' i = Num (x / y)))"
proof -
  have main: "cols d' ''fan_magnitude'' \<noteq> None \<and> cols d' ''fan_magnitude_gain'' \<noteq> None \<and>
      (\<forall>i. cell_at d' ''fan_magnitude'' i =
         cell_div (cell_at d' ''trend_close_1h'' i) (cell_at d' ''trend_close_8h'' i)) \<and>
      cell_at d' ''fan_magnitude_gain'' 0 = NaN \<and>
      (\<forall>i\<ge>1. cell_at d' ''fan_magnitude_gain'' i =
         cell_div (cell_at d' ''fan_magnitude'' i) (cell_at d' ''fan_magnitude'' (i - 1))) \<and>
      (\<forall>i\<ge>1. \<forall>x y. cell_at d' ''fan_magnitude'' i = Num x \<and>
         cell_at d' ''fan_magnitude'' (i - 1) = Num y \<and> y \<noteq> 0 \<longrightarrow>
         cell_at d' ''fan_magnitude_gain'' i = Num (x / y))"
    if "IchiV1_populate_indicators lib d = Inr d'" for d'
  proof -
    from ichi_fan_Inr [OF that] obtain a b where
      "cols d' ''trend_close_1h'' = Some a" "cols d' ''trend_close_8h'' = Some b"
      "cols d' ''fan_magnitude'' = Some (series_div a b)"
      "cols d' ''fan_magnitude_gain'' =
         Some (series_div (series_div a b) (shift 1 (series_div a b)))"
      by blast
    then show ?thesis
      by (auto simp: cell_at_def series_div_def shift_def)
  qed
  show ?thesis
    unfolding IchiV1_Fixed_populate_indicators_def IchiV1_Optimizable_populate_indicators_def
    using main by blast
qed

theorem fan_magnitude_gain_rows_witness:
  "result_cell (IchiV1_Fixed_populate_indicators flat_lib (flat_candles 100))
     ''fan_magnitude_gain'' 0 = NaN \<and>
   result_cell (IchiV1_Fixed_populate_indicators flat_lib (flat_candles 100))
     ''fan_magnitude'' 96 = Num 1 \<and>
   result_cell (IchiV1_Fixed_populate_indicators flat_lib (flat_candles 100))
     ''fan_magnitude_gain'' 96 = Num 1"
proof -
  from ichi_indicators_eval [OF flat_candles_cols(1-4) flat_lib_keys, of 100]
  obtain d' where r: "IchiV1_populate_indicators flat_lib (flat_candles 100) = Inr d'"
    and c: "cols d' ''trend_close_1h'' = Some (ta_EMA flat_lib (SR (scalar 100)) (Some 12))"
      "cols d' ''trend_close_8h'' = Some (ta_EMA flat_lib (SR (scalar 100)) (Some 96))"
    by blast
  have r': "IchiV1_Fixed_populate_indicators flat_lib (flat_candles 100) = Inr d'"
    by (simp add: IchiV1_Fixed_populate_indicators_def r)
  note t = fan_magnitude_gain_rows [of flat_lib "flat_candles 100" "()", THEN conjunct1,
      rule_format, OF r']
  have tc: "cell_at d' ''trend_close_1h'' 96 = Num 100" "cell_at d' ''trend_close_8h'' 96 = Num 100"
    "cell_at d' ''trend_close_1h'' 95 = Num 100" "cell_at d' ''trend_close_8h'' 95 = Num 100"
    by (simp_all add: cell_at_def c flat_lib_EMA scalar_def)
  from t have fm: "cell_at d' ''fan_magnitude'' 96 = Num 1" "cell_at d' ''fan_magnitude'' 95 = Num 1"
    by (simp_all add: tc)
  from t have "cell_at d' ''fan_magnitude_gain'' 96 =
      cell_div (cell_at d' ''fan_magnitude'' 96) (cell_at d' ''fan_magnitude'' (96 - 1))"
    by (simp del: One_nat_def)
  then have g: "cell_at d' ''fan_magnitude_gain'' 96 = Num 1"
    by (simp add: fm)
  from t have "cell_at d' ''fan_magnitude_gain'' 0 = NaN" by simp
  with fm g show ?thesis by (simp add: r')
qed

section \<open>The Heikin-Ashi candles\<close>

text \<open>
  C7. Whenever the IchiV1 indicator stage returns, its open column at row 0 is the average
  of the input's open and close at row 0; at every row \<open>i \<ge> 1\<close> it is the average of the
  smoothed open and the close at row \<open>i - 1\<close>; its high column is the maximum of the input's
  high, the smoothed open and the close at the row, its low column the minimum of the
  input's low, the smoothed open and the close; and the close column is the input's.
\<close>

theorem heikin_ashi_rows:
  "(\<forall>d'. IchiV1_Fixed_populate_indicators lib d = Inr d' \<longrightarrow>
      (\<exists>opn high low cls.
         cols d ''open'' = Some opn \<and> cols d ''high'' = Some high \<and>
         cols d ''low'' = Some low \<and> cols d ''close'' = Some cls \<and>
         cell_at d' ''open'' 0 = average (opn 0) (cls 0) \<and>
         (\<forall>i\<ge>1. cell_at d' ''open'' i = average (cell_at d' ''open'' (i - 1)) (cls (i - 1))) \<and>
         (\<forall>i. cell_at d' ''high'' i =
            cell_max (high i) (cell_max (cell_at d' ''open'' i) (cls i))) \<and>
         (\<forall>i. cell_at d' ''low'' i =
            cell_min (low i) (cell_min (cell_at d' ''open'' i) (cls i))) \<and>
         cols d' ''close'' = Some cls)) \<and>
   (\<forall>d'. IchiV1_Optimizable_populate_indicators lib d metadata = Inr d' \<longrightarrow>
      (\<exists>opn high low cls.
         cols d ''open'' = Some opn \<and> cols d ''high'' = Some high \<and>
         cols d ''low'' = Some low \<and> cols d ''close'' = Some cls \<and>
         cell_at d' ''open'' 0 = average (opn 0) (cls 0) \<and>
         (\<forall>i\<ge>1. cell_at d' ''open'' i = average (cell_at d' ''open'' (i - 1)) (cls (i - 1))) \<and>
         (\<forall>i. cell_at d' ''high'' i =
            cell_max (high i) (cell_max (cell_at d' ''open'' i) (cls i))) \<and>
         (\<forall>i. cell_at d' ''low'' i =
            cell_min (low i) (cell_min (cell_at d' ''open'' i) (cls i))) \<and>
         cols d' ''close'' = Some cls))"
proof -
  have main: "\<exists>opn high low cls.
         cols d ''open'' = Some opn \<and> cols d ''high'' = Some high \<and>
         cols d ''low'' = Some low \<and> cols d ''close'' = Some cls \<and>
         cell_at d' ''open'' 0 = average (opn 0) (cls 0) \<and>
         (\<forall>i\<ge>1. cell_at d' ''open'' i = average (cell_at d' ''open'' (i - 1)) (cls (i - 1))) \<and>
         (\<forall>i. cell_at d' ''high'' i =
            cell_max (high i) (cell_max (cell_at d' ''open'' i) (cls i))) \<and>
         (\<forall>i. cell_at d' ''low'' i =
            cell_min (low i) (cell_min (cell_at d' ''open'' i) (cls i))) \<and>
         cols d' ''close'' = Some cls"
    if "IchiV1_populate_indicators lib d = Inr d'" for d'
  proof -
    from ichi_indicators_Inr [OF that] obtain opn high low cls where
      inp: "cols d ''open'' = Some opn" "cols d ''high'' = Some high"
        "cols d ''low'' = Some low" "cols d ''close'' = Some cls"
      and out: "cols d' ''open'' = Some (ha_open opn cls)"
        "cols d' ''high'' = Some (ha_high high opn cls)"
        "cols d' ''low'' = Some (ha_low low opn cls)"
        "cols d' ''close'' = Some cls"
      by blast
    have step: "ha_open opn cls i = average (ha_open opn cls (i - 1)) (cls (i - 1))"
      if "1 \<le> i" for i
      using that by (cases i) simp_all
    from inp out step show ?thesis
      by (simp add: cell_at_def ha_high_def ha_low_def)
  qed
  show ?thesis
    unfolding IchiV1_Fixed_populate_indicators_def IchiV1_Optimizable_populate_indicators_def
    using main by blast
qed

theorem heikin_ashi_rows_witness:
  "result_cell (IchiV1_Fixed_populate_indicators flat_lib two_candles) ''open'' 0 = Num 2 \<and>
   result_cell (IchiV1_Fixed_populate_indicators flat_lib two_candles) ''open'' 1 = Num 2.5 \<and>
   result_cell (IchiV1_Fixed_populate_indicators flat_lib two_candles) ''high'' 1 = Num 6 \<and>
   result_cell (IchiV1_Fixed_populate_indicators flat_lib two_candles) ''low'' 1 = Num 2 \<and>
   result_cell (IchiV1_Fixed_populate_indicators flat_lib two_candles) ''close'' 1 = Num 5"
proof -
  from ichi_indicators_eval [OF two_candles_cols(1-4) flat_lib_keys]
  obtain d' where r: "IchiV1_populate_indicators flat_lib two_candles = Inr d'"
    by blast
  have r': "IchiV1_Fixed_populate_indicators flat_lib two_candles = Inr d'"
    by (simp add: IchiV1_Fixed_populate_indicators_def r)
  from heikin_ashi_rows [of flat_lib two_candles "()", THEN conjunct1, rule_format, OF r']
  obtain opn high low cls where
    inp: "cols two_candles ''open'' = Some opn" "cols two_candles ''high'' = Some high"
      "cols two_candles ''low'' = Some low" "cols two_candles ''close'' = Some cls"
    and o0: "cell_at d' ''open'' 0 = average (opn 0) (cls 0)"
    and oi: "\<forall>i\<ge>1. cell_at d' ''open'' i = average (cell_at d' ''open'' (i - 1)) (cls (i - 1))"
    and hi: "\<forall>i. cell_at d' ''high'' i =
        cell_max (high i) (cell_max (cell_at d' ''open'' i) (cls i))"
    and lo: "\<forall>i. cell_at d' ''low'' i =
        cell_min (low i) (cell_min (cell_at d' ''open'' i) (cls i))"
    and cl: "cols d' ''close'' = Some cls"
    by blast
  from inp have vals: "opn = series_of [Num 1, Num 4]" "high = series_of [Num 3, Num 6]"
    "low = series_of [Num 1, Num 2]" "cls = series_of [Num 3, Num 5]"
    by (simp_all add: two_candles_cols)
  from oi have o1: "cell_at d' ''open'' 1 = average (cell_at d' ''open'' (1 - 1)) (cls (1 - 1))"
    by blast
  have t: "cell_at d' ''open'' 0 = average (Num 1) (Num 3)"
    "cell_at d' ''open'' 1 = average (cell_at d' ''open'' 0) (Num 3)"
    "cell_at d' ''high'' 1 = cell_max (Num 6) (cell_max (cell_at d' ''open'' 1) (Num 5))"
    "cell_at d' ''low'' 1 = cell_min (Num 2) (cell_min (cell_at d' ''open'' 1) (Num 5))"
    "cell_at d' ''close'' 1 = Num 5"
    using o0 o1 hi [rule_format, of 1] lo [rule_format, of 1] cl
    by (simp_all add: vals series_of_def cell_at_def)
  have o0v: "cell_at d' ''open'' 0 = Num 2"
    using t(1) by (simp add: average_def)
  have o1v: "cell_at d' ''open'' 1 = Num 2.5"
    using t(2) o0v by (simp add: average_def)
  have hv: "cell_at d' ''high'' 1 = Num 6" and lv: "cell_at d' ''low'' 1 = Num 2"
    using t(3,4) o1v by (simp_all add: cell_max_def cell_min_def)
  from o0v o1v hv lv t(5) show ?thesis by (simp add: r')
qed

section \<open>What the indicator stage leaves in place\<close>

text \<open>
  C5, as amended. Whenever it returns, the indicator stage of the Grid strategies has kept
  the rows and the open, high, low, close and volume columns, and every column outside the
  indicator names it assigns. The indicator stage of the IchiV1 strategies has kept the
  rows, the close and volume columns and every column outside the names it assigns, and has
  replaced open, high and low by their Heikin-Ashi values.
\<close>

theorem indicators_frame:
  "(\<forall>d'. GridStrategy_populate_indicators lib self d metadata = Inr d' \<longrightarrow>
      nrows d' = nrows d \<and>
      cols d' ''open'' = cols d ''open'' \<and> cols d' ''high'' = cols d ''high'' \<and>
      cols d' ''low'' = cols d ''low'' \<and> cols d' ''close'' = cols d ''close'' \<and>
      cols d' ''volume'' = cols d ''volume'' \<and>
      (\<forall>n. n \<notin> set grid_indicator_names \<longrightarrow> cols d' n = cols d n)) \<and>
   (\<forall>d'. GridStrategyV2_populate_indicators lib self d metadata = Inr d' \<longrightarrow>
      nrows d' = nrows d \<and>
      cols d' ''open'' = cols d ''open'' \<and> cols d' ''high'' = cols d ''high'' \<and>
      cols d' ''low'' = cols d ''low'' \<and> cols d' ''close'' = cols d ''close'' \<and>
      cols d' ''volume'' = cols d ''volume'' \<and>
      (\<forall>n. n \<notin> set grid_v2_indicator_names \<longrightarrow> cols d' n = cols d n)) \<and>
   (\<forall>d'. IchiV1_Fixed_populate_indicators lib d = Inr d' \<longrightarrow>
      nrows d' = nrows d \<and>
      cols d' ''close'' = cols d ''close'' \<and> cols d' ''volume'' = cols d ''volume'' \<and>
      (\<forall>n. n \<notin> set ichi_indicator_names \<longrightarrow> cols d' n = cols d n) \<and>
      (\<exists>opn high low cls.
         cols d ''open'' = Some opn \<and> cols d ''high'' = Some high \<and>
         cols d ''low'' = Some low \<and> cols d ''close'' = Some cls \<and>
         cols d' ''open'' = Some (ha_open opn cls) \<and>
         cols d' ''high'' = Some (ha_high high opn cls) \<and>
         cols d' ''low'' = Some (ha_low low opn cls))) \<and>
   (\<forall>d'. IchiV1_Optimizable_populate_indicators lib d metadata = Inr d' \<longrightarrow>
      nrows d' = nrows d \<and>
      cols d' ''close'' = cols d ''close'' \<and> cols d' ''volume'' = cols d ''volume'' \<and>
      (\<forall>n. n \<notin> set ichi_indicator_names \<longrightarrow> cols d' n = cols d n) \<and>
      (\<exists>opn high low cls.
         cols d ''open'' = Some opn \<and> cols d ''high'' = Some high \<and>
         cols d ''low'' = Some low \<and> cols d ''close'' = Some cls \<and>
         cols d' ''open'' = Some (ha_open opn cls) \<and>
         cols d' ''high'' = Some (ha_high high opn cls) \<and>
         cols d' ''low'' = Some (ha_low low opn cls)))"
proof -
  have grid: "nrows d' = nrows d \<and>
      cols d' ''open'' = cols d ''open'' \<and> cols d' ''high'' = cols d ''high'' \<and>
      cols d' ''low'' = cols d ''low'' \<and> cols d' ''close'' = cols d ''close'' \<and>
      cols d' ''volume'' = cols d ''volume'' \<and>
      (\<forall>n. n \<notin> set grid_indicator_names \<longrightarrow> cols d' n = cols d n)"
    if "GridStrategy_populate_indicators lib self d metadata = Inr d'" for d'
    using assigns_withinD [OF grid_assigns that] assigns_within_nrows [OF grid_assigns that]
    by (simp add: grid_indicator_names_def)
  have v2: "nrows d' = nrows d \<and>
      cols d' ''open'' = cols d ''open'' \<and> cols d' ''high'' = cols d ''high'' \<and>
      cols d' ''low'' = cols d ''low'' \<and> cols d' ''close'' = cols d ''close'' \<and>
      cols d' ''volume'' = cols d ''volume'' \<and>
      (\<forall>n. n \<notin> set grid_v2_indicator_names \<longrightarrow> cols d' n = cols d n)"
    if "GridStrategyV2_populate_indicators lib self d metadata = Inr d'" for d'
    using assigns_withinD [OF grid_v2_assigns that]
      assigns_within_nrows [OF grid_v2_assigns that]
    by (simp add: grid_v2_indicator_names_def)
  have ichi: "nrows d' = nrows d \<and>
      cols d' ''close'' = cols d ''close'' \<and> cols d' ''volume'' = cols d ''volume'' \<and>
      (\<forall>n. n \<notin> set ichi_indicator_names \<longrightarrow> cols d' n = cols d n) \<and>
      (\<exists>opn high low cls.
         cols d ''open'' = Some opn \<and> cols d ''high'' = Some high \<and>
         cols d ''low'' = Some low \<and> cols d ''close'' = Some cls \<and>
         cols d' ''open'' = Some (ha_open opn cls) \<and>
         cols d' ''high'' = Some (ha_high high opn cls) \<and>
         cols d' ''low'' = Some (ha_low low opn cls))"
    if "IchiV1_populate_indicators lib d = Inr d'" for d'
    using ichi_indicators_Inr [OF that] by auto
  show ?thesis
    unfolding IchiV1_Fixed_populate_indicators_def IchiV1_Optimizable_populate_indicators_def
    using grid v2 ichi by blast
qed

theorem indicators_frame_witness:
  "result_cell (GridStrategy_populate_indicators flat_lib GridStrategy (flat_candles 25) ())
     ''close'' 20 = Num 100 \<and>
   result_cell (GridStrategyV2_populate_indicators flat_lib GridStrategyV2 (flat_candles 25) ())
     ''volume'' 20 = Num 100 \<and>
   result_cell (IchiV1_Fixed_populate_indicators flat_lib two_candles) ''close'' 1 = Num 5 \<and>
   result_cell (IchiV1_Fixed_populate_indicators flat_lib two_candles) ''open'' 0 = Num 2"
proof -
  from grid_flat_eval [OF flat_candles_cols(4,5), of GridStrategy 25 "()"]
  obtain d1 where r1: "GridStrategy_populate_indicators flat_lib GridStrategy (flat_candles 25) ()
      = Inr d1"
    by blast
  from grid_v2_flat_eval [OF flat_candles_cols(4,5), of GridStrategyV2 25 "()"]
  obtain d2 where r2:
    "GridStrategyV2_populate_indicators flat_lib GridStrategyV2 (flat_candles 25) () = Inr d2"
    by blast
  obtain d3 where r3: "IchiV1_populate_indicators flat_lib two_candles = Inr d3"
    by (rule two_candles_ichi)
  have r3': "IchiV1_Fixed_populate_indicators flat_lib two_candles = Inr d3"
    by (simp add: IchiV1_Fixed_populate_indicators_def r3)
  note g = indicators_frame [of flat_lib GridStrategy "flat_candles 25" "()", THEN conjunct1,
      rule_format, OF r1]
  note v = indicators_frame [of flat_lib GridStrategyV2 "flat_candles 25" "()", THEN conjunct2,
      THEN conjunct1, rule_format, OF r2]
  note h = indicators_frame [of flat_lib GridStrategy two_candles "()", THEN conjunct2,
      THEN conjunct2, THEN conjunct1, rule_format, OF r3']
  from g have a: "cell_at d1 ''close'' 20 = Num 100"
    by (simp add: cell_at_def flat_candles_cols scalar_def)
  from v have b: "cell_at d2 ''volume'' 20 = Num 100"
    by (simp add: cell_at_def flat_candles_cols scalar_def)
  from h have c: "cell_at d3 ''close'' 1 = Num 5" and d: "cell_at d3 ''open'' 0 = Num 2"
    by (auto simp: cell_at_def two_candles_cols series_of_def average_def)
  from a b c d show ?thesis
    by (simp add: r1 r2 r3')
qed

text \<open>
  C5 as stated fails for the IchiV1 strategies: on two candles whose first open is 1 and
  first close is 3, the returned open column holds 2 at row 0.
\<close>

theorem indicators_frame_counterexample:
  "cell_at two_candles ''open'' 0 = Num 1 \<and>
   result_cell (IchiV1_Fixed_populate_indicators flat_lib two_candles) ''open'' 0 = Num 2"
proof -
  obtain d' where r: "IchiV1_populate_indicators flat_lib two_candles = Inr d'"
    and o: "cols d' ''open'' = Some (ha_open (series_of [Num 1, Num 4]) (series_of [Num 3, Num 5]))"
    by (rule two_candles_ichi)
  have "cell_at d' ''open'' 0 = Num 2"
    by (simp add: cell_at_def o series_of_def average_def)
  moreover have "cell_at two_candles ''open'' 0 = Num 1"
    by (simp add: cell_at_def two_candles_cols series_of_def)
  ultimately show ?thesis
    by (simp add: IchiV1_Fixed_populate_indicators_def r)
qed

section \<open>Rows with undefined indicators\<close>

text \<open>
  C3, as amended. Run the indicator stage, then the entry and the exit signal, on candles
  (of any length) whose flags are not yet set at row \<open>i\<close>. No strategy consults the length
  of the series or its warm-up count: a row gets no entry and no exit flag where the
  indicators its conditions compare are undefined after the indicator stage, that is
  bb_lowerband, bb_upperband, rsi and sma_20 for GridStrategy, bb_lowerband and rsi for
  GridStrategyV2, fan_magnitude and the configured sell indicator for the IchiV1 classes.
\<close>

theorem undefined_rows_unflagged:
  assumes "\<not> flag_set candles ''enter_long'' i" and "\<not> flag_set candles ''exit_long'' i"
  shows
   "(result_cell (GridStrategy_populate_indicators lib self candles metadata)
       ''bb_lowerband'' i = NaN \<and>
     result_cell (GridStrategy_populate_indicators lib self candles metadata)
       ''bb_upperband'' i = NaN \<and>
     result_cell (GridStrategy_populate_indicators lib self candles metadata) ''rsi'' i = NaN \<and>
     result_cell (GridStrategy_populate_indicators lib self candles metadata)
       ''sma_20'' i = NaN \<longrightarrow>
     \<not> result_flag (run_stages (\<lambda>d. GridStrategy_populate_indicators lib self d metadata)
          (\<lambda>d. GridStrategy_populate_entry_trend d metadata)
          (\<lambda>d. GridStrategy_populate_exit_trend d metadata) candles) ''enter_long'' i \<and>
     \<not> result_flag (run_stages (\<lambda>d. GridStrategy_populate_indicators lib self d metadata)
          (\<lambda>d. GridStrategy_populate_entry_trend d metadata)
          (\<lambda>d. GridStrategy_populate_exit_trend d metadata) candles) ''exit_long'' i) \<and>
    (result_cell (GridStrategyV2_populate_indicators lib self candles metadata)
       ''bb_lowerband'' i = NaN \<and>
     result_cell (GridStrategyV2_populate_indicators lib self candles metadata)
       ''rsi'' i = NaN \<longrightarrow>
     \<not> result_flag (run_stages (\<lambda>d. GridStrategyV2_populate_indicators lib self d metadata)
          (\<lambda>d. GridStrategyV2_populate_entry_trend d metadata)
          (\<lambda>d. GridStrategyV2_populate_exit_trend d metadata) candles) ''enter_long'' i \<and>
     \<not> result_flag (run_stages (\<lambda>d. GridStrategyV2_populate_indicators lib self d metadata)
          (\<lambda>d. GridStrategyV2_populate_entry_trend d metadata)
          (\<lambda>d. GridStrategyV2_populate_exit_trend d metadata) candles) ''exit_long'' i) \<and>
    (result_cell (IchiV1_Fixed_populate_indicators lib candles) ''fan_magnitude'' i = NaN \<and>
     result_cell (IchiV1_Fixed_populate_indicators lib candles)
       (sell_trend_indicator params) i = NaN \<longrightarrow>
     \<not> result_flag (run_stages (IchiV1_Fixed_populate_indicators lib)
          (IchiV1_Fixed_populate_entry_trend params)
          (IchiV1_Fixed_populate_exit_trend params) candles) ''enter_long'' i \<and>
     \<not> result_flag (run_stages (IchiV1_Fixed_populate_indicators lib)
          (IchiV1_Fixed_populate_entry_trend params)
          (IchiV1_Fixed_populate_exit_trend params) candles) ''exit_long'' i) \<and>
    (result_cell (IchiV1_Optimizable_populate_indicators lib candles metadata)
       ''fan_magnitude'' i = NaN \<and>
     result_cell (IchiV1_Optimizable_populate_indicators lib candles metadata)
       (sell_trend_indicator params) i = NaN \<longrightarrow>
     \<not> result_flag (run_stages (\<lambda>d. IchiV1_Optimizable_populate_indicators lib d metadata)
          (\<lambda>d. IchiV1_Optimizable_populate_entry_trend params d metadata)
          (\<lambda>d. IchiV1_Optimizable_populate_exit_trend params d metadata) candles)
        ''enter_long'' i \<and>
     \<not> result_flag (run_stages (\<lambda>d. IchiV1_Optimizable_populate_indicators lib d metadata)
          (\<lambda>d. IchiV1_Optimizable_populate_entry_trend params d metadata)
          (\<lambda>d. IchiV1_Optimizable_populate_exit_trend params d metadata) candles)
        ''exit_long'' i)"
proof (intro conjI impI)
  assume "result_cell (GridStrategy_populate_indicators lib self candles metadata)
       ''bb_lowerband'' i = NaN \<and>
     result_cell (GridStrategy_populate_indicators lib self candles metadata)
       ''bb_upperband'' i = NaN \<and>
     result_cell (GridStrategy_populate_indicators lib self candles metadata) ''rsi'' i = NaN \<and>
     result_cell (GridStrategy_populate_indicators lib self candles metadata)
       ''sma_20'' i = NaN"
  then have n: "result_cell (GridStrategy_populate_indicators lib self candles metadata)
       ''bb_lowerband'' i = NaN"
    "result_cell (GridStrategy_populate_indicators lib self candles metadata)
       ''bb_upperband'' i = NaN"
    "result_cell (GridStrategy_populate_indicators lib self candles metadata) ''rsi'' i = NaN"
    "result_cell (GridStrategy_populate_indicators lib self candles metadata)
       ''sma_20'' i = NaN"
    by blast+
  from grid_run_unflagged [OF assms n]
  show "\<not> result_flag (run_stages (\<lambda>d. GridStrategy_populate_indicators lib self d metadata)
          (\<lambda>d. GridStrategy_populate_entry_trend d metadata)
          (\<lambda>d. GridStrategy_populate_exit_trend d metadata) candles) ''enter_long'' i"
    and "\<not> result_flag (run_stages (\<lambda>d. GridStrategy_populate_indicators lib self d metadata)
          (\<lambda>d. GridStrategy_populate_entry_trend d metadata)
          (\<lambda>d. GridStrategy_populate_exit_trend d metadata) candles) ''exit_long'' i"
    by blast+
next
  assume "result_cell (GridStrategyV2_populate_indicators lib self candles metadata)
       ''bb_lowerband'' i = NaN \<and>
     result_cell (GridStrategyV2_populate_indicators lib self candles metadata)
       ''rsi'' i = NaN"
  then have n: "result_cell (GridStrategyV2_populate_indicators lib self candles metadata)
       ''bb_lowerband'' i = NaN"
    "result_cell (GridStrategyV2_populate_indicators lib self candles metadata)
       ''rsi'' i = NaN"
    by blast+
  from grid_v2_run_unflagged [OF assms n]
  show "\<not> result_flag (run_stages (\<lambda>d. GridStrategyV2_populate_indicators lib self d metadata)
          (\<lambda>d. GridStrategyV2_populate_entry_trend d metadata)
          (\<lambda>d. GridStrategyV2_populate_exit_trend d metadata) candles) ''enter_long'' i"
    and "\<not> result_flag (run_stages (\<lambda>d. GridStrategyV2_populate_indicators lib self d metadata)
          (\<lambda>d. GridStrategyV2_populate_entry_trend d metadata)
          (\<lambda>d. GridStrategyV2_populate_exit_trend d metadata) candles) ''exit_long'' i"
    by blast+
next
  assume "result_cell (IchiV1_Fixed_populate_indicators lib candles) ''fan_magnitude'' i = NaN \<and>
     result_cell (IchiV1_Fixed_populate_indicators lib candles)
       (sell_trend_indicator params) i = NaN"
  then have n: "result_cell (IchiV1_populate_indicators lib candles) ''fan_magnitude'' i = NaN"
    "result_cell (IchiV1_populate_indicators lib candles) (sell_trend_indicator params) i = NaN"
    by (simp_all add: IchiV1_Fixed_populate_indicators_def)
  from ichi_run_unflagged [OF assms n]
  show "\<not> result_flag (run_stages (IchiV1_Fixed_populate_indicators lib)
          (IchiV1_Fixed_populate_entry_trend params)
          (IchiV1_Fixed_populate_exit_trend params) candles) ''enter_long'' i"
    and "\<not> result_flag (run_stages (IchiV1_Fixed_populate_indicators lib)
          (IchiV1_Fixed_populate_entry_trend params)
          (IchiV1_Fixed_populate_exit_trend params) candles) ''exit_long'' i"
    unfolding ichi_fixed_stages by blast+
next
  assume "result_cell (IchiV1_Optimizable_populate_indicators lib candles metadata)
       ''fan_magnitude'' i = NaN \<and>
     result_cell (IchiV1_Optimizable_populate_indicators lib candles metadata)
       (sell_trend_indicator params) i = NaN"
  then have n: "result_cell (IchiV1_populate_indicators lib candles) ''fan_magnitude'' i = NaN"
    "result_cell (IchiV1_populate_indicators lib candles) (sell_trend_indicator params) i = NaN"
    by (simp_all add: IchiV1_Optimizable_populate_indicators_def)
  from ichi_run_unflagged [OF assms n]
  show "\<not> result_flag (run_stages (\<lambda>d. IchiV1_Optimizable_populate_indicators lib d metadata)
          (\<lambda>d. IchiV1_Optimizable_populate_entry_trend params d metadata)
          (\<lambda>d. IchiV1_Optimizable_populate_exit_trend params d metadata) candles)
        ''enter_long'' i"
    and "\<not> result_flag (run_stages (\<lambda>d. IchiV1_Optimizable_populate_indicators lib d metadata)
          (\<lambda>d. IchiV1_Optimizable_populate_entry_trend params d metadata)
          (\<lambda>d. IchiV1_Optimizable_populate_exit_trend params d metadata) candles)
        ''exit_long'' i"
    unfolding ichi_optimizable_stages by blast+
qed

theorem undefined_rows_unflagged_witness:
  "\<not> flag_set (flat_candles 25) ''enter_long'' 0 \<and>
   \<not> flag_set (flat_candles 25) ''exit_long'' 0 \<and>
   result_cell (GridStrategy_populate_indicators flat_lib GridStrategy (flat_candles 25) ())
     ''bb_lowerband'' 0 = NaN \<and>
   result_cell (IchiV1_Fixed_populate_indicators flat_lib (flat_candles 25))
     ''fan_magnitude'' 0 = NaN \<and>
   \<not> result_flag (run_stages
       (\<lambda>d. GridStrategy_populate_indicators flat_lib GridStrategy d ())
       (\<lambda>d. GridStrategy_populate_entry_trend d ())
       (\<lambda>d. GridStrategy_populate_exit_trend d ()) (flat_candles 25)) ''enter_long'' 0 \<and>
   \<not> result_flag (run_stages
       (\<lambda>d. GridStrategyV2_populate_indicators flat_lib GridStrategyV2 d ())
       (\<lambda>d. GridStrategyV2_populate_entry_trend d ())
       (\<lambda>d. GridStrategyV2_populate_exit_trend d ()) (flat_candles 25)) ''enter_long'' 0 \<and>
   \<not> result_flag (run_stages (IchiV1_Fixed_populate_indicators flat_lib)
       (IchiV1_Fixed_populate_entry_trend scenario_params)
       (IchiV1_Fixed_populate_exit_trend scenario_params) (flat_candles 25)) ''exit_long'' 0 \<and>
   \<not> result_flag (run_stages
       (\<lambda>d. IchiV1_Optimizable_populate_indicators flat_lib d ())
       (\<lambda>d. IchiV1_Optimizable_populate_entry_trend scenario_params d ())
       (\<lambda>d. IchiV1_Optimizable_populate_exit_trend scenario_params d ()) (flat_candles 25))
     ''enter_long'' 0"
proof -
  note g = undefined_rows_unflagged [OF flat_candles_fresh [of 25 0],
      of flat_lib GridStrategy "()" scenario_params]
  note v = undefined_rows_unflagged [OF flat_candles_fresh [of 25 0],
      of flat_lib GridStrategyV2 "()" scenario_params]
  have i: "result_cell (IchiV1_Fixed_populate_indicators flat_lib (flat_candles 25))
      ''fan_magnitude'' 0 = NaN"
    "result_cell (IchiV1_Fixed_populate_indicators flat_lib (flat_candles 25))
      (sell_trend_indicator scenario_params) 0 = NaN"
    "result_cell (IchiV1_Optimizable_populate_indicators flat_lib (flat_candles 25) ())
      ''fan_magnitude'' 0 = NaN"
    "result_cell (IchiV1_Optimizable_populate_indicators flat_lib (flat_candles 25) ())
      (sell_trend_indicator scenario_params) 0 = NaN"
    by (simp_all add: IchiV1_Fixed_populate_indicators_def
        IchiV1_Optimizable_populate_indicators_def flat_ichi_warmup)
  from g flat_grid_warmup have a:
    "\<not> result_flag (run_stages
       (\<lambda>d. GridStrategy_populate_indicators flat_lib GridStrategy d ())
       (\<lambda>d. GridStrategy_populate_entry_trend d ())
       (\<lambda>d. GridStrategy_populate_exit_trend d ()) (flat_candles 25)) ''enter_long'' 0"
    by blast
  from v flat_grid_v2_warmup have b:
    "\<not> result_flag (run_stages
       (\<lambda>d. GridStrategyV2_populate_indicators flat_lib GridStrategyV2 d ())
       (\<lambda>d. GridStrategyV2_populate_entry_trend d ())
       (\<lambda>d. GridStrategyV2_populate_exit_trend d ()) (flat_candles 25)) ''enter_long'' 0"
    by blast
  from g i have c:
    "\<not> result_flag (run_stages (IchiV1_Fixed_populate_indicators flat_lib)
       (IchiV1_Fixed_populate_entry_trend scenario_params)
       (IchiV1_Fixed_populate_exit_trend scenario_params) (flat_candles 25)) ''exit_long'' 0"
    by blast
  from g i have d:
    "\<not> result_flag (run_stages
       (\<lambda>d. IchiV1_Optimizable_populate_indicators flat_lib d ())
       (\<lambda>d. IchiV1_Optimizable_populate_entry_trend scenario_params d ())
       (\<lambda>d. IchiV1_Optimizable_populate_exit_trend scenario_params d ()) (flat_candles 25))
     ''enter_long'' 0"
    by blast
  from a b c d flat_candles_fresh [of 25 0] flat_grid_warmup(1) i(1) show ?thesis
    by blast
qed

text \<open>
  C3 as stated fails: on 25 flat candles, fewer than the 30 of GridStrategy's warm-up
  count, with Bollinger bands that are defined once their window of 20 rows is full, the
  close at row 20 is at the lower band and the row gets the entry flag.
\<close>

theorem warmup_flags_counterexample:
  "nrows (flat_candles 25) < startup_candle_count GridStrategy \<and>
   result_flag (run_stages (\<lambda>d. GridStrategy_populate_indicators flat_lib GridStrategy d ())
       (\<lambda>d. GridStrategy_populate_entry_trend d ())
       (\<lambda>d. GridStrategy_populate_exit_trend d ()) (flat_candles 25)) ''enter_long'' 20"
proof -
  from grid_flat_eval [OF flat_candles_cols(4,5), of GridStrategy 25 "()"]
  obtain d1 where r1: "GridStrategy_populate_indicators flat_lib GridStrategy (flat_candles 25) ()
      = Inr d1"
    and c1: "cols d1 ''close'' = Some (scalar 100)" "cols d1 ''volume'' = Some (scalar 100)"
      "cols d1 ''bb_lowerband'' = Some (windowed (Some 20) (scalar 100))"
      "cols d1 ''bb_upperband'' = Some (windowed (Some 20) (scalar 100))"
      "cols d1 ''rsi'' = Some nan_series"
      "cols d1 ''sma_20'' = Some (windowed (Some 20) (scalar 100))"
      "cols d1 ''volume_sma'' = Some (windowed (Some 20) (scalar 100))"
    by blast
  from GridStrategy_entry_returns [OF c1(1,3,5,6,2,7), of "()"]
  obtain d2 where r2: "GridStrategy_populate_entry_trend d1 () = Inr d2" by blast
  note d2 = GridStrategy_entry_Inr [OF r2]
  have f2: "flag_set d2 ''enter_long'' 20"
    by (subst d2) (simp add: flag_set_loc_set cell_at_def c1 windowed_at scalar_def)
  have c2: "cols d2 n = cols d1 n" if "n \<noteq> ''enter_long''" for n
    using that by (subst d2) (simp add: cols_loc_set)
  have "\<exists>d3. GridStrategy_populate_exit_trend d2 () = Inr d3"
    by (rule GridStrategy_exit_returns [where c = "scalar 100"
          and b = "windowed (Some 20) (scalar 100)" and r = nan_series
          and s = "windowed (Some 20) (scalar 100)" and v = "scalar 100"
          and w = "windowed (Some 20) (scalar 100)" and md = "()"])
      (simp_all add: c2 c1)
  then obtain d3 where r3: "GridStrategy_populate_exit_trend d2 () = Inr d3" by blast
  note d3 = GridStrategy_exit_Inr [OF r3]
  have "flag_set d3 ''enter_long'' 20"
    using f2 by (subst d3) (simp add: flag_set_def cell_at_loc_set)
  moreover have "nrows (flat_candles 25) < startup_candle_count GridStrategy"
    by (simp add: flat_candles_def GridStrategy_def)
  ultimately show ?thesis
    by (simp add: run_stages_def r1 r2 r3)
qed

end
